theory Spec2Isabelle
  imports Main
begin

section \<open>STAS redeem-split: data model\<close>

text \<open>
  Embedding of \<^verbatim>\<open>src/lib/stasRedeemSplit.js\<close>. Satoshi amounts are JavaScript
  numbers holding integers and are modelled as \<^typ>\<open>int\<close>; scripts, public keys,
  public-key hashes and addresses are strings. An argument that the caller may leave
  \<^verbatim>\<open>undefined\<close> is an \<^typ>\<open>'a option\<close>. A thrown exception is a value
  \<open>Inl e\<close>; the promise resolving with \<open>v\<close> is \<open>Inr v\<close>.
\<close>

record amount =
  satoshis :: int

record "output" = amount +
  script :: string

record utxo = "output" +
  txId :: string
  outputIndex :: nat

record split_destination = amount +
  address :: string

text \<open>An element of \<^verbatim>\<open>outputData\<close> (the output plan).\<close>

record plan_entry = amount +
  publicKeyHash :: string

text \<open>An element of \<^verbatim>\<open>unsignedData\<close>.\<close>

record descriptor = "output" +
  inputIndex :: nat
  sighash :: nat
  publicKeyString :: string
  stas :: bool

text \<open>
  A transaction input: the output it spends (what \<^verbatim>\<open>tx.from(utxo)\<close> records and
  \<^verbatim>\<open>tx.inputs[i].output\<close> reads back) and its unlocking script, held as the ASM text
  given to \<^verbatim>\<open>bsv.Script.fromASM\<close>.
\<close>

record input =
  spent :: utxo
  unlockingScript :: string

record transaction =
  inputs :: "input list"
  outputs :: "output list"

record private_key =
  publicKey :: string
  bn :: nat

datatype error =
    ArgumentValidation
  | DestinationCompatibility
  | InsufficientChange
  | TypeError

text \<open>
  What the promise resolves with. The documented return type is
  \<^verbatim>\<open>Promise<string|object>\<close>: a hexadecimal string, or an object, which in the code
  is either the transaction itself or \<^verbatim>\<open>{unsignedData, tx}\<close>.
\<close>

datatype build_result =
    is_HexString: HexString string
  | is_TxObject: TxObject transaction
  | is_UnsignedObject: UnsignedObject "descriptor list" transaction

fun result_tx :: "build_result \<Rightarrow> transaction option" where
  "result_tx (HexString h) = None"
| "result_tx (TxObject t) = Some t"
| "result_tx (UnsignedObject ds t) = Some t"

fun result_unsignedData :: "build_result \<Rightarrow> descriptor list option" where
  "result_unsignedData (HexString h) = None"
| "result_unsignedData (TxObject t) = None"
| "result_unsignedData (UnsignedObject ds t) = Some ds"

section \<open>Collaborators\<close>

text \<open>
  The modules required at the top of the file (\<^verbatim>\<open>./errors\<close>, \<^verbatim>\<open>./utility\<close>,
  \<^verbatim>\<open>./stasTemplates\<close>, \<^verbatim>\<open>./stasFeeEstimates\<close> and the \<^verbatim>\<open>bsv\<close> library) are
  parameters of the model. The three checks of \<^verbatim>\<open>errorHandler\<close> exist to throw: each
  is a predicate that is \<open>True\<close> when the check passes. The other operations are taken
  on their success path, as pure functions: the classes of \<^verbatim>\<open>bsv\<close> are the records
  above, and what the library itself may reject (a malformed key, an amount it does not
  accept) is not modelled. The builds that succeed in the model therefore include every
  build that succeeds in the program, and a statement about all successful builds of the
  model holds of the program's. The concrete runs below use well-formed, non-negative
  amounts and distinct outpoints.

  \<^verbatim>\<open>sign\<close> stands for \<^verbatim>\<open>bsv.Transaction.Sighash.sign(...).toTxFormat().toString('hex')\<close>,
  \<^verbatim>\<open>estimateFee rate tx\<close> for \<^verbatim>\<open>tx.feePerKb(rate)._estimateFee()\<close>, and
  \<^verbatim>\<open>parseTransaction\<close> for \<^verbatim>\<open>new bsv.Transaction(hex)\<close>. The builder
  \<^verbatim>\<open>buildUnlockingScriptUnsigned\<close> is always called with \<^verbatim>\<open>undefined\<close> as its third
  argument, which the model leaves out.
\<close>

record collaborators =
  validateRedeemSplitArgs ::
    "string \<Rightarrow> utxo \<Rightarrow> string \<Rightarrow> utxo option \<Rightarrow> split_destination list \<Rightarrow> bool"
  checkDestinationAddressCondition :: "string \<Rightarrow> string \<Rightarrow> bool \<Rightarrow> bool"
  checkZeroChangeThreshold :: "int \<Rightarrow> int \<Rightarrow> string \<Rightarrow> bool"
  getPKHfromPublicKey :: "string \<Rightarrow> string"
  buildP2pkhOutputScript :: "string \<Rightarrow> string"
  addressToPKH :: "string \<Rightarrow> string"
  SIGHASH :: nat
  SATS :: int
  checkIfStas20 :: "string \<Rightarrow> bool"
  getRedeemPublicKeyHash :: "string \<Rightarrow> string"
  updateStasScript :: "string \<Rightarrow> string \<Rightarrow> string"
  formatDataToHexStringWithOpCodeConversion :: "string \<Rightarrow> string"
  buildUnlockingScriptUnsigned ::
    "transaction \<Rightarrow> plan_entry list \<Rightarrow> bool \<Rightarrow> string option \<Rightarrow> bool \<Rightarrow> bool \<Rightarrow> string"
  buildSplitDestinations :: "nat \<Rightarrow> int \<Rightarrow> split_destination list"
  templatePrivateKey :: private_key
  paymentUtxoTemplate :: utxo
  feeEstimates_txCost :: int
  sign :: "transaction \<Rightarrow> private_key \<Rightarrow> nat \<Rightarrow> nat \<Rightarrow> string \<Rightarrow> int \<Rightarrow> string"
  estimateFee :: "int \<Rightarrow> transaction \<Rightarrow> int"
  parseTransaction :: "string \<Rightarrow> transaction"

section \<open>The build\<close>

definition thenE :: "error + 'a \<Rightarrow> ('a \<Rightarrow> error + 'b) \<Rightarrow> error + 'b" where
  "thenE r f = (case r of Inl e \<Rightarrow> Inl e | Inr v \<Rightarrow> f v)"

definition new_Transaction :: transaction where
  "new_Transaction = \<lparr>inputs = [], outputs = []\<rparr>"

definition tx_from :: "transaction \<Rightarrow> utxo \<Rightarrow> transaction" where
  "tx_from tx u = tx\<lparr>inputs := inputs tx @ [\<lparr>spent = u, unlockingScript = []\<rparr>]\<rparr>"

definition addOutput :: "transaction \<Rightarrow> output \<Rightarrow> transaction" where
  "addOutput tx out = tx\<lparr>outputs := outputs tx @ [out]\<rparr>"

definition setScript :: "transaction \<Rightarrow> nat \<Rightarrow> string \<Rightarrow> transaction" where
  "setScript tx i s = tx\<lparr>inputs := (inputs tx)[i := (inputs tx ! i)\<lparr>unlockingScript := s\<rparr>]\<rparr>"

text \<open>Line 36: \<^verbatim>\<open>splitDestinations.reduce((a, b) => a + b.satoshis, 0)\<close>.\<close>

definition totalOutSats :: "split_destination list \<Rightarrow> int" where
  "totalOutSats splitDestinations = foldl (\<lambda>a b. a + satoshis b) 0 splitDestinations"

text \<open>
  Lines 57--65: the loop over the split destinations, threading the transaction and
  \<^verbatim>\<open>outputData\<close>. The destination check throws out of the loop.
\<close>

fun splitLoop ::
  "collaborators \<Rightarrow> string \<Rightarrow> bool \<Rightarrow> split_destination list \<Rightarrow>
   transaction \<times> plan_entry list \<Rightarrow> error + (transaction \<times> plan_entry list)" where
  "splitLoop env stasScript0 isStas20 [] st = Inr st"
| "splitLoop env stasScript0 isStas20 (destinationData # rest) (tx, outputData) =
    (let destinationPublicKeyHash = addressToPKH env (address destinationData);
         destinationSatoshis = satoshis destinationData;
         stasScript = updateStasScript env destinationPublicKeyHash stasScript0;
         redeemAddr = getRedeemPublicKeyHash env stasScript
     in if \<not> checkDestinationAddressCondition env redeemAddr destinationPublicKeyHash isStas20
        then Inl DestinationCompatibility
        else splitLoop env stasScript0 isStas20 rest
               (addOutput tx \<lparr>satoshis = destinationSatoshis, script = stasScript\<rparr>,
                outputData @ [\<lparr>satoshis = destinationSatoshis,
                               publicKeyHash = destinationPublicKeyHash\<rparr>]))"

text \<open>Lines 40--55: the inputs, the redeem output and its plan entry.\<close>

definition redeemStage ::
  "collaborators \<Rightarrow> utxo \<Rightarrow> utxo option \<Rightarrow> split_destination list \<Rightarrow>
   transaction \<times> plan_entry list" where
  "redeemStage env stasUtxo paymentUtxo splitDestinations =
    (let redeemPkh = getRedeemPublicKeyHash env (script stasUtxo);
         redeemOutputScript = buildP2pkhOutputScript env redeemPkh;
         redeemSats = satoshis stasUtxo - totalOutSats splitDestinations;
         tx0 = tx_from new_Transaction stasUtxo;
         tx1 = (case paymentUtxo of None \<Rightarrow> tx0 | Some p \<Rightarrow> tx_from tx0 p)
     in (addOutput tx1 \<lparr>satoshis = redeemSats, script = redeemOutputScript\<rparr>,
         [\<lparr>satoshis = redeemSats, publicKeyHash = redeemPkh\<rparr>]))"

text \<open>Lines 67--77: the change output, read back from the transaction for the plan.\<close>

definition changeStage ::
  "collaborators \<Rightarrow> string \<Rightarrow> utxo option \<Rightarrow> bool \<Rightarrow> int \<Rightarrow>
   transaction \<times> plan_entry list \<Rightarrow> transaction \<times> plan_entry list" where
  "changeStage env paymentPublicKey paymentUtxo isZeroChange txCost st =
    (case paymentUtxo of
       None \<Rightarrow> st
     | Some p \<Rightarrow>
        if isZeroChange then st
        else (let paymentPublicKeyHash = getPKHfromPublicKey env paymentPublicKey;
                  tx = addOutput (fst st)
                         \<lparr>satoshis = satoshis p - txCost,
                          script = buildP2pkhOutputScript env paymentPublicKeyHash\<rparr>
              in (tx, snd st @ [\<lparr>satoshis = satoshis (last (outputs tx)),
                                 publicKeyHash = paymentPublicKeyHash\<rparr>])))"

text \<open>
  Lines 79--81. The argument \<^verbatim>\<open>paymentUtxo.satoshis\<close> is evaluated before the call, so
  an absent payment UTXO is a \<^verbatim>\<open>TypeError\<close>.
\<close>

definition zeroChangeStage ::
  "collaborators \<Rightarrow> utxo option \<Rightarrow> bool \<Rightarrow> int \<Rightarrow> bool \<Rightarrow> error + unit" where
  "zeroChangeStage env paymentUtxo isZeroChange txCost feeEstimateCall =
    (if isZeroChange \<and> \<not> feeEstimateCall
     then (case paymentUtxo of
             None \<Rightarrow> Inl TypeError
           | Some p \<Rightarrow>
               if checkZeroChangeThreshold env (satoshis p) txCost
                    ''RedeemSplit Function Zero Change''
               then Inr () else Inl InsufficientChange)
     else Inr ())"

text \<open>Lines 83--90: the data output; \<^verbatim>\<open>data\<close> is reassigned to its formatted form.\<close>

definition dataStage ::
  "collaborators \<Rightarrow> bool \<Rightarrow> string option \<Rightarrow> transaction \<Rightarrow> transaction \<times> string option" where
  "dataStage env isStas20 data tx =
    (case data of
       None \<Rightarrow> (tx, None)
     | Some d \<Rightarrow>
        if isStas20
        then (let d' = formatDataToHexStringWithOpCodeConversion env d;
                  lockingScriptNote = ''006a'' @ d'
              in (addOutput tx \<lparr>satoshis = 0, script = lockingScriptNote\<rparr>, Some d'))
        else (tx, Some d))"

text \<open>
  Lines 28--90 together: the transaction before signing, the output plan, and the value
  of \<^verbatim>\<open>data\<close> that line 93 hands to the unlocking-script builder.
\<close>

definition planOutputs ::
  "collaborators \<Rightarrow> utxo \<Rightarrow> string \<Rightarrow> utxo option \<Rightarrow> split_destination list \<Rightarrow>
   string option \<Rightarrow> bool \<Rightarrow> int \<Rightarrow> bool \<Rightarrow>
   error + (transaction \<times> plan_entry list \<times> string option)" where
  "planOutputs env stasUtxo paymentPublicKey paymentUtxo splitDestinations data
     isZeroChange txCost feeEstimateCall =
    (let isStas20 = checkIfStas20 env (script stasUtxo)
     in thenE (splitLoop env (script stasUtxo) isStas20 splitDestinations
                 (redeemStage env stasUtxo paymentUtxo splitDestinations))
         (\<lambda>st. let st' = changeStage env paymentPublicKey paymentUtxo isZeroChange txCost st
               in thenE (zeroChangeStage env paymentUtxo isZeroChange txCost feeEstimateCall)
                    (\<lambda>_. let (tx, data') = dataStage env isStas20 data (fst st')
                         in Inr (tx, snd st', data'))))"

text \<open>Lines 93--107: the unlocking scripts and the descriptors of the inputs left unsigned.\<close>

definition ownerDescriptor :: "collaborators \<Rightarrow> transaction \<Rightarrow> string \<Rightarrow> descriptor" where
  "ownerDescriptor env tx ownerPublicKey =
    \<lparr>satoshis = satoshis (spent (inputs tx ! 0)), script = script (spent (inputs tx ! 0)),
     inputIndex = 0, sighash = SIGHASH env, publicKeyString = ownerPublicKey, stas = True\<rparr>"

definition paymentDescriptor :: "collaborators \<Rightarrow> transaction \<Rightarrow> string \<Rightarrow> descriptor" where
  "paymentDescriptor env tx paymentPublicKey =
    \<lparr>satoshis = satoshis (spent (inputs tx ! 1)), script = script (spent (inputs tx ! 1)),
     inputIndex = 1, sighash = SIGHASH env, publicKeyString = paymentPublicKey, stas = False\<rparr>"

definition signOwner ::
  "collaborators \<Rightarrow> string \<Rightarrow> private_key option \<Rightarrow> string \<Rightarrow> transaction \<Rightarrow>
   transaction \<times> descriptor list" where
  "signOwner env ownerPublicKey ownerPrivateKey unSignedUnlockingScript tx =
    (case ownerPrivateKey of
       Some k \<Rightarrow>
         (setScript tx 0
            (unSignedUnlockingScript @ '' '' @
             sign env tx k (SIGHASH env) 0 (script (spent (inputs tx ! 0)))
               (satoshis (spent (inputs tx ! 0))) @ '' '' @ ownerPublicKey), [])
     | None \<Rightarrow>
         (let tx' = setScript tx 0 unSignedUnlockingScript
          in (tx', [ownerDescriptor env tx' ownerPublicKey])))"

definition signPayment ::
  "collaborators \<Rightarrow> string \<Rightarrow> utxo option \<Rightarrow> private_key option \<Rightarrow>
   transaction \<times> descriptor list \<Rightarrow> transaction \<times> descriptor list" where
  "signPayment env paymentPublicKey paymentUtxo paymentPrivateKey st =
    (case paymentUtxo of
       None \<Rightarrow> st
     | Some p \<Rightarrow>
        (case paymentPrivateKey of
           Some k \<Rightarrow>
             (setScript (fst st) 1
                (sign env (fst st) k (SIGHASH env) 1 (script (spent (inputs (fst st) ! 1)))
                   (satoshis (spent (inputs (fst st) ! 1))) @ '' '' @ paymentPublicKey),
              snd st)
         | None \<Rightarrow> (fst st, snd st @ [paymentDescriptor env (fst st) paymentPublicKey])))"

text \<open>Lines 109--116.\<close>

definition resultOf :: "transaction \<times> descriptor list \<Rightarrow> build_result" where
  "resultOf st = (if length (snd st) \<noteq> 0 then UnsignedObject (snd st) (fst st)
                  else TxObject (fst st))"

definition unSignedFunc ::
  "collaborators \<Rightarrow> string \<Rightarrow> utxo \<Rightarrow> string \<Rightarrow> utxo option \<Rightarrow> split_destination list \<Rightarrow>
   string option \<Rightarrow> bool \<Rightarrow> private_key option \<Rightarrow> private_key option \<Rightarrow> int \<Rightarrow> bool \<Rightarrow>
   error + build_result" where
  "unSignedFunc env ownerPublicKey stasUtxo paymentPublicKey paymentUtxo splitDestinations
     data isZeroChange ownerPrivateKey paymentPrivateKey txCost feeEstimateCall =
    (if \<not> validateRedeemSplitArgs env ownerPublicKey stasUtxo paymentPublicKey paymentUtxo
            splitDestinations
     then Inl ArgumentValidation
     else thenE (planOutputs env stasUtxo paymentPublicKey paymentUtxo splitDestinations data
                   isZeroChange txCost feeEstimateCall)
            (\<lambda>(tx, outputData, data').
               let isStas20 = checkIfStas20 env (script stasUtxo);
                   isZeroFee = (paymentUtxo = None);
                   unSignedUnlockingScript =
                     buildUnlockingScriptUnsigned env tx outputData isStas20 data'
                       isZeroFee isZeroChange
               in Inr (resultOf
                    (signPayment env paymentPublicKey paymentUtxo paymentPrivateKey
                       (signOwner env ownerPublicKey ownerPrivateKey
                          unSignedUnlockingScript tx)))))"

text \<open>
  Lines 132--134. Reading \<^verbatim>\<open>.publicKey\<close> of an absent private key is a
  \<^verbatim>\<open>TypeError\<close>.
\<close>

definition signedFunc ::
  "collaborators \<Rightarrow> private_key option \<Rightarrow> utxo \<Rightarrow> split_destination list \<Rightarrow> utxo option \<Rightarrow>
   private_key option \<Rightarrow> string option \<Rightarrow> bool \<Rightarrow> int \<Rightarrow> bool \<Rightarrow> error + build_result" where
  "signedFunc env ownerPrivateKey stasUtxo splitDestinations paymentUtxo paymentPrivateKey
     data isZeroChange txCost feeEstimateCall =
    (case ownerPrivateKey of
       None \<Rightarrow> Inl TypeError
     | Some ok \<Rightarrow>
        (case paymentPrivateKey of
           None \<Rightarrow> Inl TypeError
         | Some pk \<Rightarrow>
             unSignedFunc env (publicKey ok) stasUtxo (publicKey pk) paymentUtxo
               splitDestinations data isZeroChange (Some ok) (Some pk) txCost
               feeEstimateCall))"

text \<open>
  Lines 145--146: the measurement build of the fee estimator, and line 147: the
  library's fee estimate of what it resolved with. \<^verbatim>\<open>new bsv.Transaction\<close> copies a
  transaction object and parses a hexadecimal string; the object form
  \<^verbatim>\<open>{unsignedData, tx}\<close> is not a transaction (the measurement build never resolves
  with it, see \<open>feeEstimateBuild_signed\<close>).
\<close>

definition feeEstimateBuild ::
  "collaborators \<Rightarrow> utxo \<Rightarrow> split_destination list \<Rightarrow> string option \<Rightarrow> bool \<Rightarrow>
   error + build_result" where
  "feeEstimateBuild env stasUtxo splitDestinations data isZeroChange =
    (let splitDest = buildSplitDestinations env (length splitDestinations) (satoshis stasUtxo)
     in signedFunc env (Some (templatePrivateKey env)) stasUtxo splitDest
          (Some (paymentUtxoTemplate env)) (Some (templatePrivateKey env)) data isZeroChange
          (feeEstimates_txCost env) True)"

definition feeEstimate ::
  "collaborators \<Rightarrow> utxo \<Rightarrow> split_destination list \<Rightarrow> string option \<Rightarrow> bool \<Rightarrow> error + int" where
  "feeEstimate env stasUtxo splitDestinations data isZeroChange =
    thenE (feeEstimateBuild env stasUtxo splitDestinations data isZeroChange)
      (\<lambda>redeemSplitHex.
         case redeemSplitHex of
           TxObject tx \<Rightarrow> Inr (estimateFee env (SATS env) tx)
         | HexString h \<Rightarrow> Inr (estimateFee env (SATS env) (parseTransaction env h))
         | UnsignedObject ds tx \<Rightarrow> Inl TypeError)"

text \<open>Lines 161--164 and 177--180: the exported entry points.\<close>

definition signed ::
  "collaborators \<Rightarrow> private_key option \<Rightarrow> utxo \<Rightarrow> split_destination list \<Rightarrow> utxo option \<Rightarrow>
   private_key option \<Rightarrow> string option \<Rightarrow> bool \<Rightarrow> error + build_result" where
  "signed env ownerPrivateKey stasUtxo splitDestinations paymentUtxo paymentPrivateKey data
     isZeroChange =
    thenE (feeEstimate env stasUtxo splitDestinations data isZeroChange)
      (\<lambda>txCost. signedFunc env ownerPrivateKey stasUtxo splitDestinations paymentUtxo
                  paymentPrivateKey data isZeroChange txCost False)"

definition unSigned ::
  "collaborators \<Rightarrow> string \<Rightarrow> utxo \<Rightarrow> string \<Rightarrow> utxo option \<Rightarrow> split_destination list \<Rightarrow>
   string option \<Rightarrow> bool \<Rightarrow> error + build_result" where
  "unSigned env ownerPublicKey stasUtxo paymentPublicKey paymentUtxo splitDestinations data
     isZeroChange =
    thenE (feeEstimate env stasUtxo splitDestinations data isZeroChange)
      (\<lambda>txCost. unSignedFunc env ownerPublicKey stasUtxo paymentPublicKey paymentUtxo
                  splitDestinations data isZeroChange None None txCost False)"

section \<open>Reading a result\<close>

definition builtTx :: "error + build_result \<Rightarrow> transaction option" where
  "builtTx res = (case res of Inl e \<Rightarrow> None | Inr r \<Rightarrow> result_tx r)"

text \<open>
  The output list and the output plan in the words of the specification: the redeem
  output, one re-templated output per destination, the optional change output, the
  optional data output.
\<close>

definition redeemOutput :: "collaborators \<Rightarrow> utxo \<Rightarrow> split_destination list \<Rightarrow> output" where
  "redeemOutput env stasUtxo splitDestinations =
    \<lparr>satoshis = satoshis stasUtxo - sum_list (map satoshis splitDestinations),
     script = buildP2pkhOutputScript env (getRedeemPublicKeyHash env (script stasUtxo))\<rparr>"

definition destinationOutput :: "collaborators \<Rightarrow> utxo \<Rightarrow> split_destination \<Rightarrow> output" where
  "destinationOutput env stasUtxo d =
    \<lparr>satoshis = satoshis d,
     script = updateStasScript env (addressToPKH env (address d)) (script stasUtxo)\<rparr>"

definition changeOutputs ::
  "collaborators \<Rightarrow> string \<Rightarrow> utxo option \<Rightarrow> bool \<Rightarrow> int \<Rightarrow> output list" where
  "changeOutputs env paymentPublicKey paymentUtxo isZeroChange txCost =
    (case paymentUtxo of
       None \<Rightarrow> []
     | Some p \<Rightarrow>
        if isZeroChange then []
        else [\<lparr>satoshis = satoshis p - txCost,
               script = buildP2pkhOutputScript env
                          (getPKHfromPublicKey env paymentPublicKey)\<rparr>])"

definition dataOutputs :: "collaborators \<Rightarrow> utxo \<Rightarrow> string option \<Rightarrow> output list" where
  "dataOutputs env stasUtxo data =
    (case data of
       None \<Rightarrow> []
     | Some d \<Rightarrow>
        if checkIfStas20 env (script stasUtxo)
        then [\<lparr>satoshis = 0,
               script = ''006a'' @ formatDataToHexStringWithOpCodeConversion env d\<rparr>]
        else [])"

definition destinationsOk :: "collaborators \<Rightarrow> utxo \<Rightarrow> split_destination list \<Rightarrow> bool" where
  "destinationsOk env stasUtxo splitDestinations =
    list_all (\<lambda>d. checkDestinationAddressCondition env
                     (getRedeemPublicKeyHash env
                        (updateStasScript env (addressToPKH env (address d)) (script stasUtxo)))
                     (addressToPKH env (address d))
                     (checkIfStas20 env (script stasUtxo)))
      splitDestinations"

definition redeemEntry :: "collaborators \<Rightarrow> utxo \<Rightarrow> split_destination list \<Rightarrow> plan_entry" where
  "redeemEntry env stasUtxo splitDestinations =
    \<lparr>satoshis = satoshis stasUtxo - sum_list (map satoshis splitDestinations),
     publicKeyHash = getRedeemPublicKeyHash env (script stasUtxo)\<rparr>"

definition destinationEntry :: "collaborators \<Rightarrow> split_destination \<Rightarrow> plan_entry" where
  "destinationEntry env d =
    \<lparr>satoshis = satoshis d, publicKeyHash = addressToPKH env (address d)\<rparr>"

definition changeEntries ::
  "collaborators \<Rightarrow> string \<Rightarrow> utxo option \<Rightarrow> bool \<Rightarrow> int \<Rightarrow> plan_entry list" where
  "changeEntries env paymentPublicKey paymentUtxo isZeroChange txCost =
    (case paymentUtxo of
       None \<Rightarrow> []
     | Some p \<Rightarrow>
        if isZeroChange then []
        else [\<lparr>satoshis = satoshis p - txCost,
               publicKeyHash = getPKHfromPublicKey env paymentPublicKey\<rparr>])"

definition expectedOutputs ::
  "collaborators \<Rightarrow> utxo \<Rightarrow> string \<Rightarrow> utxo option \<Rightarrow> split_destination list \<Rightarrow>
   string option \<Rightarrow> bool \<Rightarrow> int \<Rightarrow> output list" where
  "expectedOutputs env stasUtxo paymentPublicKey paymentUtxo splitDestinations data
     isZeroChange txCost =
    redeemOutput env stasUtxo splitDestinations
    # map (destinationOutput env stasUtxo) splitDestinations
    @ changeOutputs env paymentPublicKey paymentUtxo isZeroChange txCost
    @ dataOutputs env stasUtxo data"

definition expectedPlan ::
  "collaborators \<Rightarrow> utxo \<Rightarrow> string \<Rightarrow> utxo option \<Rightarrow> split_destination list \<Rightarrow>
   bool \<Rightarrow> int \<Rightarrow> plan_entry list" where
  "expectedPlan env stasUtxo paymentPublicKey paymentUtxo splitDestinations isZeroChange
     txCost =
    redeemEntry env stasUtxo splitDestinations
    # map (destinationEntry env) splitDestinations
    @ changeEntries env paymentPublicKey paymentUtxo isZeroChange txCost"

definition plannedInputs :: "utxo \<Rightarrow> utxo option \<Rightarrow> input list" where
  "plannedInputs stasUtxo paymentUtxo =
    \<lparr>spent = stasUtxo, unlockingScript = []\<rparr>
    # (case paymentUtxo of None \<Rightarrow> [] | Some p \<Rightarrow> [\<lparr>spent = p, unlockingScript = []\<rparr>])"

text \<open>The value of \<^verbatim>\<open>data\<close> after line 84.\<close>

definition dataHanded :: "collaborators \<Rightarrow> utxo \<Rightarrow> string option \<Rightarrow> string option" where
  "dataHanded env stasUtxo data =
    (if checkIfStas20 env (script stasUtxo)
     then map_option (formatDataToHexStringWithOpCodeConversion env) data
     else data)"

text \<open>
  Modelled from the spec: \<^verbatim>\<open>errors.js\<close>, which defines
  \<^verbatim>\<open>checkZeroChangeThreshold\<close>, is not among the sources. The specification says that
  the operation fails with an insufficient-change error when
  \<open>paymentUtxo.satoshis - txCost\<close> is below the dust threshold. The check passes
  (\<open>True\<close>) otherwise; the threshold is the parameter \<open>dust\<close>.
\<close>

definition checkZeroChangeThreshold_spec :: "int \<Rightarrow> int \<Rightarrow> int \<Rightarrow> bool" where
  "checkZeroChangeThreshold_spec dust paymentSats txCost = (\<not> paymentSats - txCost < dust)"

section \<open>A concrete instance of the collaborators\<close>

text \<open>
  A small instance on which the build can be run. A token script is laid out as four
  characters of owner hash, four of redemption hash, then the rest of the template, which
  starts with \<open>20\<close> for the token kind that carries data. The fee is the size of the
  scripts and fixed fields times the rate per thousand, rounded up.
\<close>

definition sample_size :: "transaction \<Rightarrow> int" where
  "sample_size tx =
    10 + sum_list (map (\<lambda>i. 41 + int (length (unlockingScript i))) (inputs tx))
       + sum_list (map (\<lambda>out. 9 + int (length (script out))) (outputs tx))"

definition sample_env :: collaborators where
  "sample_env =
    \<lparr>validateRedeemSplitArgs = (\<lambda>ownerPublicKey stasUtxo paymentPublicKey paymentUtxo ds.
        ownerPublicKey \<noteq> [] \<and> ds \<noteq> []),
     checkDestinationAddressCondition = (\<lambda>redeemAddr pkh isStas20. isStas20 \<or> redeemAddr \<noteq> pkh),
     checkZeroChangeThreshold = (\<lambda>paymentSats c name. checkZeroChangeThreshold_spec 546 paymentSats c),
     getPKHfromPublicKey = drop 2,
     buildP2pkhOutputScript = (\<lambda>h. ''76a914'' @ h @ ''88ac''),
     addressToPKH = drop 1,
     SIGHASH = 65,
     SATS = 500,
     checkIfStas20 = (\<lambda>s. take 2 (drop 8 s) = ''20''),
     getRedeemPublicKeyHash = (\<lambda>s. take 4 (drop 4 s)),
     updateStasScript = (\<lambda>pkh s. pkh @ drop 4 s),
     formatDataToHexStringWithOpCodeConversion = (\<lambda>d. d),
     buildUnlockingScriptUnsigned = (\<lambda>tx outputData isStas20 data isZeroFee isZeroChange.
        concat (map publicKeyHash outputData)),
     buildSplitDestinations = (\<lambda>n sats.
        replicate n \<lparr>satoshis = sats div (int n + 1), address = ''1dddd''\<rparr>),
     templatePrivateKey = \<lparr>publicKey = ''02tttt'', bn = 1\<rparr>,
     paymentUtxoTemplate =
       \<lparr>satoshis = 1000000, script = ''76a914tttt88ac'', txId = ''ee'', outputIndex = 0\<rparr>,
     feeEstimates_txCost = 0,
     sign = (\<lambda>tx k sh i s v. ''30'' @ publicKey k),
     estimateFee = (\<lambda>rate tx. (sample_size tx * rate + 999) div 1000),
     parseTransaction = (\<lambda>h. new_Transaction)\<rparr>"

definition sample_stas :: utxo where
  "sample_stas = \<lparr>satoshis = 10000, script = ''aaaarrrr10'', txId = ''aa'', outputIndex = 0\<rparr>"

definition sample_stas20 :: utxo where
  "sample_stas20 =
    \<lparr>satoshis = 10000, script = ''aaaarrrr20ffffffff'', txId = ''bb'', outputIndex = 1\<rparr>"

definition sample_payment :: utxo where
  "sample_payment =
    \<lparr>satoshis = 1000, script = ''76a914pppp88ac'', txId = ''cc'', outputIndex = 2\<rparr>"

definition sample_destinations :: "split_destination list" where
  "sample_destinations =
    [\<lparr>satoshis = 3000, address = ''1bbbb''\<rparr>, \<lparr>satoshis = 4000, address = ''1cccc''\<rparr>]"

definition sample_ownerKey :: private_key where
  "sample_ownerKey = \<lparr>publicKey = ''02aaaa'', bn = 7\<rparr>"

definition sample_paymentKey :: private_key where
  "sample_paymentKey = \<lparr>publicKey = ''03pppp'', bn = 9\<rparr>"

section \<open>The stages in closed form\<close>

lemmas sample_defs = sample_env_def sample_stas_def sample_stas20_def sample_payment_def
  sample_destinations_def sample_ownerKey_def sample_paymentKey_def sample_size_def
  checkZeroChangeThreshold_spec_def

lemmas build_defs = unSignedFunc_def planOutputs_def redeemStage_def changeStage_def
  zeroChangeStage_def dataStage_def signOwner_def signPayment_def resultOf_def thenE_def
  new_Transaction_def tx_from_def addOutput_def setScript_def totalOutSats_def
  ownerDescriptor_def paymentDescriptor_def signedFunc_def feeEstimate_def
  feeEstimateBuild_def signed_def unSigned_def builtTx_def Let_def

lemmas plan_defs = expectedOutputs_def expectedPlan_def redeemOutput_def redeemEntry_def
  destinationOutput_def destinationEntry_def changeOutputs_def changeEntries_def
  dataOutputs_def dataHanded_def destinationsOk_def plannedInputs_def

lemma foldl_satoshis: "foldl (\<lambda>a b. a + satoshis b) z ds = z + sum_list (map satoshis ds)"
  by (induction ds arbitrary: z) simp_all

lemma totalOutSats_sum_list: "totalOutSats ds = sum_list (map satoshis ds)"
  by (simp add: totalOutSats_def foldl_satoshis)

text \<open>
  The loop either stops at the first destination that fails the check, or appends one
  output and one plan entry per destination, in order.
\<close>

lemma splitLoop_eq:
  "splitLoop env (script stasUtxo) (checkIfStas20 env (script stasUtxo)) ds (tx, od) =
    (if destinationsOk env stasUtxo ds
     then Inr (tx\<lparr>outputs := outputs tx @ map (destinationOutput env stasUtxo) ds\<rparr>,
               od @ map (destinationEntry env) ds)
     else Inl DestinationCompatibility)"
proof (induction ds arbitrary: tx od)
  case Nil
  then show ?case by (simp add: destinationsOk_def)
next
  case (Cons d ds)
  then show ?case
    by (simp add: destinationsOk_def destinationOutput_def destinationEntry_def addOutput_def
        Let_def)
qed

lemma redeemStage_eq:
  "redeemStage env stasUtxo paymentUtxo ds =
    (\<lparr>inputs = plannedInputs stasUtxo paymentUtxo,
      outputs = [redeemOutput env stasUtxo ds]\<rparr>,
     [redeemEntry env stasUtxo ds])"
  by (simp add: redeemStage_def plannedInputs_def redeemOutput_def redeemEntry_def
      totalOutSats_sum_list tx_from_def new_Transaction_def addOutput_def Let_def
      split: option.split)

lemma changeStage_eq:
  "changeStage env ppk pay izc c (tx, od) =
    (tx\<lparr>outputs := outputs tx @ changeOutputs env ppk pay izc c\<rparr>,
     od @ changeEntries env ppk pay izc c)"
  by (simp add: changeStage_def changeOutputs_def changeEntries_def addOutput_def Let_def
      split: option.split)

lemma dataStage_eq:
  "dataStage env (checkIfStas20 env (script stasUtxo)) data tx =
    (tx\<lparr>outputs := outputs tx @ dataOutputs env stasUtxo data\<rparr>, dataHanded env stasUtxo data)"
  by (simp add: dataStage_def dataOutputs_def dataHanded_def addOutput_def Let_def
      split: option.split)

lemma planOutputs_eq:
  "planOutputs env stasUtxo ppk pay ds data izc c fec =
    (if \<not> destinationsOk env stasUtxo ds then Inl DestinationCompatibility
     else case zeroChangeStage env pay izc c fec of
            Inl e \<Rightarrow> Inl e
          | Inr u \<Rightarrow> Inr (\<lparr>inputs = plannedInputs stasUtxo pay,
                            outputs = expectedOutputs env stasUtxo ppk pay ds data izc c\<rparr>,
                         expectedPlan env stasUtxo ppk pay ds izc c,
                         dataHanded env stasUtxo data))"
  by (simp add: planOutputs_def redeemStage_eq splitLoop_eq changeStage_eq dataStage_eq
      thenE_def expectedOutputs_def expectedPlan_def split: sum.split)

lemma unSignedFunc_eq:
  "unSignedFunc env opk stasUtxo ppk pay ds data izc ok pk c fec =
    (if \<not> validateRedeemSplitArgs env opk stasUtxo ppk pay ds then Inl ArgumentValidation
     else if \<not> destinationsOk env stasUtxo ds then Inl DestinationCompatibility
     else case zeroChangeStage env pay izc c fec of
            Inl e \<Rightarrow> Inl e
          | Inr u \<Rightarrow>
              Inr (resultOf
                (signPayment env ppk pay pk
                  (signOwner env opk ok
                     (buildUnlockingScriptUnsigned env
                        \<lparr>inputs = plannedInputs stasUtxo pay,
                         outputs = expectedOutputs env stasUtxo ppk pay ds data izc c\<rparr>
                        (expectedPlan env stasUtxo ppk pay ds izc c)
                        (checkIfStas20 env (script stasUtxo))
                        (dataHanded env stasUtxo data) (pay = None) izc)
                     \<lparr>inputs = plannedInputs stasUtxo pay,
                      outputs = expectedOutputs env stasUtxo ppk pay ds data izc c\<rparr>))))"
  by (simp add: unSignedFunc_def planOutputs_eq thenE_def Let_def split: sum.split)

subsection \<open>Signing leaves the outputs alone\<close>

lemma outputs_signOwner: "outputs (fst (signOwner env opk ok u tx)) = outputs tx"
  by (simp add: signOwner_def setScript_def Let_def split: option.split)

lemma outputs_signPayment: "outputs (fst (signPayment env ppk pay pk st)) = outputs (fst st)"
  by (simp add: signPayment_def setScript_def split: option.split)

lemma result_tx_resultOf: "result_tx (resultOf st) = Some (fst st)"
  by (simp add: resultOf_def)

lemma resultOf_not_hex: "resultOf st \<noteq> HexString h"
  by (simp add: resultOf_def)

lemma unSignedFunc_outputs:
  assumes "unSignedFunc env opk stasUtxo ppk pay ds data izc ok pk c fec = Inr r"
  shows "map_option outputs (result_tx r) =
           Some (expectedOutputs env stasUtxo ppk pay ds data izc c)"
  using assms
  by (auto simp: unSignedFunc_eq result_tx_resultOf outputs_signPayment outputs_signOwner
      split: if_splits sum.splits)

lemma unSignedFunc_inputs:
  assumes "unSignedFunc env opk stasUtxo ppk pay ds data izc ok pk c fec = Inr r"
  shows "map_option (\<lambda>t. map spent (inputs t)) (result_tx r) =
           Some (stasUtxo # (case pay of None \<Rightarrow> [] | Some p \<Rightarrow> [p]))"
  using assms
  by (auto simp: unSignedFunc_eq result_tx_resultOf signOwner_def signPayment_def
      plannedInputs_def setScript_def Let_def split: if_splits sum.splits option.splits)

lemma unSignedFunc_never_hex:
  "unSignedFunc env opk stasUtxo ppk pay ds data izc ok pk c fec \<noteq> Inr (HexString h)"
  by (simp add: unSignedFunc_eq resultOf_not_hex split: sum.split)

subsection \<open>The entry points funnel into the build\<close>

lemma signedFunc_Inr:
  assumes "signedFunc env oko stasUtxo ds pay pko data izc c fec = Inr r"
  shows "\<exists>ok pk. oko = Some ok \<and> pko = Some pk \<and>
           unSignedFunc env (publicKey ok) stasUtxo (publicKey pk) pay ds data izc
             (Some ok) (Some pk) c fec = Inr r"
  using assms by (auto simp: signedFunc_def split: option.splits)

lemma signed_Inr:
  assumes "signed env oko stasUtxo ds pay pko data izc = Inr r"
  shows "\<exists>ok pk c. oko = Some ok \<and> pko = Some pk \<and>
           feeEstimate env stasUtxo ds data izc = Inr c \<and>
           unSignedFunc env (publicKey ok) stasUtxo (publicKey pk) pay ds data izc
             (Some ok) (Some pk) c False = Inr r"
  using assms by (auto simp: signed_def thenE_def split: sum.splits dest: signedFunc_Inr)

lemma unSigned_Inr:
  assumes "unSigned env opk stasUtxo ppk pay ds data izc = Inr r"
  shows "\<exists>c. feeEstimate env stasUtxo ds data izc = Inr c \<and>
           unSignedFunc env opk stasUtxo ppk pay ds data izc None None c False = Inr r"
  using assms by (auto simp: unSigned_def thenE_def split: sum.splits)

lemma feeEstimateBuild_eq:
  "feeEstimateBuild env stasUtxo ds data izc =
     unSignedFunc env (publicKey (templatePrivateKey env)) stasUtxo
       (publicKey (templatePrivateKey env)) (Some (paymentUtxoTemplate env))
       (buildSplitDestinations env (length ds) (satoshis stasUtxo)) data izc
       (Some (templatePrivateKey env)) (Some (templatePrivateKey env))
       (feeEstimates_txCost env) True"
  by (simp add: feeEstimateBuild_def signedFunc_def)

lemma feeEstimateBuild_signed:
  assumes "feeEstimateBuild env stasUtxo ds data izc = Inr r"
  shows "is_TxObject r"
  using assms
  by (auto simp: feeEstimateBuild_eq unSignedFunc_eq resultOf_def signOwner_def
      signPayment_def split: if_splits sum.splits)

subsection \<open>The expected lists\<close>

lemma expectedOutputs_0:
  "expectedOutputs env stasUtxo ppk pay ds data izc c ! 0 = redeemOutput env stasUtxo ds"
  by (simp add: expectedOutputs_def)

lemma length_expectedOutputs:
  "length (expectedOutputs env stasUtxo ppk pay ds data izc c) =
     1 + length ds + (if pay \<noteq> None \<and> \<not> izc then 1 else 0)
       + (if checkIfStas20 env (script stasUtxo) \<and> data \<noteq> None then 1 else 0)"
  by (simp add: expectedOutputs_def changeOutputs_def dataOutputs_def split: option.split)

lemma length_changeEntries:
  "length (changeEntries env ppk pay izc c) = length (changeOutputs env ppk pay izc c)"
  by (simp add: changeEntries_def changeOutputs_def split: option.split)

lemma length_expectedPlan:
  "length (expectedPlan env s ppk pay ds izc c) =
     Suc (length ds + length (changeOutputs env ppk pay izc c))"
  by (simp add: expectedPlan_def length_changeEntries)

lemma take_plan_expectedOutputs:
  "take (length (expectedPlan env s ppk pay ds izc c))
        (expectedOutputs env s ppk pay ds data izc c) =
     redeemOutput env s ds # map (destinationOutput env s) ds @ changeOutputs env ppk pay izc c"
  by (simp add: length_expectedPlan expectedOutputs_def)

lemma drop_plan_expectedOutputs:
  "drop (length (expectedPlan env s ppk pay ds izc c))
        (expectedOutputs env s ppk pay ds data izc c) = dataOutputs env s data"
  by (simp add: length_expectedPlan expectedOutputs_def)

lemma satoshis_plan:
  "map satoshis (expectedPlan env s ppk pay ds izc c) =
   map satoshis (redeemOutput env s ds # map (destinationOutput env s) ds
                 @ changeOutputs env ppk pay izc c)"
  by (simp add: expectedPlan_def redeemEntry_def redeemOutput_def destinationEntry_def
      destinationOutput_def changeEntries_def changeOutputs_def split: option.split)

lemma scripts_plan:
  "map script (redeemOutput env s ds # map (destinationOutput env s) ds
               @ changeOutputs env ppk pay izc c) =
   buildP2pkhOutputScript env (publicKeyHash (expectedPlan env s ppk pay ds izc c ! 0))
   # map (\<lambda>e. updateStasScript env (publicKeyHash e) (script s))
       (take (length ds) (tl (expectedPlan env s ppk pay ds izc c)))
   @ map (\<lambda>e. buildP2pkhOutputScript env (publicKeyHash e))
       (drop (Suc (length ds)) (expectedPlan env s ppk pay ds izc c))"
  by (simp add: expectedPlan_def redeemEntry_def redeemOutput_def destinationEntry_def
      destinationOutput_def changeEntries_def changeOutputs_def split: option.split)

subsection \<open>Replacing the zero-change check\<close>

lemma check_update_outputs:
  "redeemOutput (env\<lparr>checkZeroChangeThreshold := f\<rparr>) s ds = redeemOutput env s ds"
  "destinationOutput (env\<lparr>checkZeroChangeThreshold := f\<rparr>) s = destinationOutput env s"
  "changeOutputs (env\<lparr>checkZeroChangeThreshold := f\<rparr>) ppk pay izc c =
     changeOutputs env ppk pay izc c"
  "dataOutputs (env\<lparr>checkZeroChangeThreshold := f\<rparr>) s data = dataOutputs env s data"
  "dataHanded (env\<lparr>checkZeroChangeThreshold := f\<rparr>) s data = dataHanded env s data"
  by (simp_all add: redeemOutput_def destinationOutput_def changeOutputs_def dataOutputs_def
      dataHanded_def fun_eq_iff split: option.split)

lemma check_update_entries:
  "redeemEntry (env\<lparr>checkZeroChangeThreshold := f\<rparr>) s ds = redeemEntry env s ds"
  "destinationEntry (env\<lparr>checkZeroChangeThreshold := f\<rparr>) = destinationEntry env"
  "changeEntries (env\<lparr>checkZeroChangeThreshold := f\<rparr>) ppk pay izc c =
     changeEntries env ppk pay izc c"
  "destinationsOk (env\<lparr>checkZeroChangeThreshold := f\<rparr>) s ds = destinationsOk env s ds"
  by (simp_all add: redeemEntry_def destinationEntry_def changeEntries_def destinationsOk_def
      fun_eq_iff split: option.split)

lemma check_update_plan:
  "expectedOutputs (env\<lparr>checkZeroChangeThreshold := f\<rparr>) s ppk pay ds data izc c =
     expectedOutputs env s ppk pay ds data izc c"
  "expectedPlan (env\<lparr>checkZeroChangeThreshold := f\<rparr>) s ppk pay ds izc c =
     expectedPlan env s ppk pay ds izc c"
  by (simp_all add: expectedOutputs_def expectedPlan_def check_update_outputs
      check_update_entries)

lemma check_update_sign:
  "signOwner (env\<lparr>checkZeroChangeThreshold := f\<rparr>) opk ok u tx = signOwner env opk ok u tx"
  "signPayment (env\<lparr>checkZeroChangeThreshold := f\<rparr>) ppk pay pk st =
     signPayment env ppk pay pk st"
  by (simp_all add: signOwner_def signPayment_def ownerDescriptor_def paymentDescriptor_def
      Let_def split: option.split)

text \<open>
  When the guard of lines 79--81 is false, the build does not consult
  \<^verbatim>\<open>checkZeroChangeThreshold\<close> at all.
\<close>

lemma unSignedFunc_check_irrelevant:
  assumes "\<not> isZeroChange \<or> feeEstimateCall"
  shows "unSignedFunc (env\<lparr>checkZeroChangeThreshold := f\<rparr>) opk stasUtxo ppk pay ds data
           isZeroChange ok pk c feeEstimateCall =
         unSignedFunc env opk stasUtxo ppk pay ds data isZeroChange ok pk c feeEstimateCall"
proof -
  have z: "zeroChangeStage (env\<lparr>checkZeroChangeThreshold := f\<rparr>) pay isZeroChange c
             feeEstimateCall = Inr ()"
    "zeroChangeStage env pay isZeroChange c feeEstimateCall = Inr ()"
    using assms by (auto simp: zeroChangeStage_def)
  show ?thesis
    unfolding unSignedFunc_eq z
    by (simp add: check_update_plan check_update_outputs check_update_entries
        check_update_sign)
qed

subsection \<open>The sample run\<close>

lemma sample_core:
  "unSignedFunc sample_env ''02aaaa'' sample_stas ''03pppp'' (Some sample_payment)
     sample_destinations None False None None 112 False =
   Inr (UnsignedObject
     [\<lparr>satoshis = 10000, script = ''aaaarrrr10'', inputIndex = 0, sighash = 65,
       publicKeyString = ''02aaaa'', stas = True\<rparr>,
      \<lparr>satoshis = 1000, script = ''76a914pppp88ac'', inputIndex = 1, sighash = 65,
       publicKeyString = ''03pppp'', stas = False\<rparr>]
     \<lparr>inputs =
        [\<lparr>spent = sample_stas, unlockingScript = ''rrrrbbbbccccpppp''\<rparr>,
         \<lparr>spent = sample_payment, unlockingScript = []\<rparr>],
      outputs =
        [\<lparr>satoshis = 3000, script = ''76a914rrrr88ac''\<rparr>,
         \<lparr>satoshis = 3000, script = ''bbbbrrrr10''\<rparr>,
         \<lparr>satoshis = 4000, script = ''ccccrrrr10''\<rparr>,
         \<lparr>satoshis = 888, script = ''76a914pppp88ac''\<rparr>]\<rparr>)"
  by (simp add: sample_defs build_defs)

lemma sample_fee:
  "feeEstimate sample_env sample_stas sample_destinations None False = Inr 112"
  by (simp add: sample_defs build_defs)

lemma sample_unSigned:
  "unSigned sample_env ''02aaaa'' sample_stas ''03pppp'' (Some sample_payment)
     sample_destinations None False =
   unSignedFunc sample_env ''02aaaa'' sample_stas ''03pppp'' (Some sample_payment)
     sample_destinations None False None None 112 False"
  by (simp add: unSigned_def sample_fee thenE_def)

lemma sample_signed:
  "signed sample_env (Some sample_ownerKey) sample_stas sample_destinations
     (Some sample_payment) (Some sample_paymentKey) None False =
   Inr (TxObject
     \<lparr>inputs =
        [\<lparr>spent = sample_stas, unlockingScript = ''rrrrbbbbccccpppp 3002aaaa 02aaaa''\<rparr>,
         \<lparr>spent = sample_payment, unlockingScript = ''3003pppp 03pppp''\<rparr>],
      outputs =
        [\<lparr>satoshis = 3000, script = ''76a914rrrr88ac''\<rparr>,
         \<lparr>satoshis = 3000, script = ''bbbbrrrr10''\<rparr>,
         \<lparr>satoshis = 4000, script = ''ccccrrrr10''\<rparr>,
         \<lparr>satoshis = 888, script = ''76a914pppp88ac''\<rparr>]\<rparr>)"
  by (simp add: sample_defs build_defs)

section \<open>Claims\<close>

lemma core_redeem:
  assumes "unSignedFunc env opk stasUtxo ppk pay ds data izc ok pk c fec = Inr r"
  shows "map_option (\<lambda>t. (satoshis (outputs t ! 0), script (outputs t ! 0))) (result_tx r) =
       Some (satoshis stasUtxo - sum_list (map satoshis ds),
             buildP2pkhOutputScript env (getRedeemPublicKeyHash env (script stasUtxo)))"
proof -
  from unSignedFunc_outputs[OF assms] obtain t where
    t: "result_tx r = Some t" "outputs t = expectedOutputs env stasUtxo ppk pay ds data izc c"
    by auto
  then show ?thesis by (simp add: expectedOutputs_0 redeemOutput_def)
qed

text \<open>
  Claim C1. Whenever a build succeeds, through the internal build function or through
  either exported entry point, the transaction it resolves with has as output 0 an output
  whose amount is \<open>stasUtxo.satoshis\<close> minus the sum of the destinations' amounts and
  whose locking script is the pay-to-public-key-hash script of the redemption hash read
  from the token UTXO's script.
\<close>

theorem redeem_output_amount_and_script:
  "(unSignedFunc env ownerPublicKey stasUtxo paymentPublicKey paymentUtxo splitDestinations
      data isZeroChange ownerPrivateKey paymentPrivateKey txCost feeEstimateCall = Inr r \<longrightarrow>
    map_option (\<lambda>t. (satoshis (outputs t ! 0), script (outputs t ! 0))) (result_tx r) =
      Some (satoshis stasUtxo - sum_list (map satoshis splitDestinations),
            buildP2pkhOutputScript env (getRedeemPublicKeyHash env (script stasUtxo))))
   \<and> (signed env ownerKey stasUtxo splitDestinations paymentUtxo paymentKey data
        isZeroChange = Inr r1 \<longrightarrow>
    map_option (\<lambda>t. (satoshis (outputs t ! 0), script (outputs t ! 0))) (result_tx r1) =
      Some (satoshis stasUtxo - sum_list (map satoshis splitDestinations),
            buildP2pkhOutputScript env (getRedeemPublicKeyHash env (script stasUtxo))))
   \<and> (unSigned env ownerPublicKey stasUtxo paymentPublicKey paymentUtxo splitDestinations
        data isZeroChange = Inr r2 \<longrightarrow>
    map_option (\<lambda>t. (satoshis (outputs t ! 0), script (outputs t ! 0))) (result_tx r2) =
      Some (satoshis stasUtxo - sum_list (map satoshis splitDestinations),
            buildP2pkhOutputScript env (getRedeemPublicKeyHash env (script stasUtxo))))"
proof (intro conjI impI)
  assume "unSignedFunc env ownerPublicKey stasUtxo paymentPublicKey paymentUtxo
    splitDestinations data isZeroChange ownerPrivateKey paymentPrivateKey txCost
    feeEstimateCall = Inr r"
  then show "map_option (\<lambda>t. (satoshis (outputs t ! 0), script (outputs t ! 0))) (result_tx r) =
      Some (satoshis stasUtxo - sum_list (map satoshis splitDestinations),
            buildP2pkhOutputScript env (getRedeemPublicKeyHash env (script stasUtxo)))"
    by (rule core_redeem)
next
  assume "signed env ownerKey stasUtxo splitDestinations paymentUtxo paymentKey data
        isZeroChange = Inr r1"
  then obtain ok pk c where
    "unSignedFunc env (publicKey ok) stasUtxo (publicKey pk) paymentUtxo splitDestinations data
       isZeroChange (Some ok) (Some pk) c False = Inr r1"
    using signed_Inr by blast
  then show "map_option (\<lambda>t. (satoshis (outputs t ! 0), script (outputs t ! 0))) (result_tx r1) =
      Some (satoshis stasUtxo - sum_list (map satoshis splitDestinations),
            buildP2pkhOutputScript env (getRedeemPublicKeyHash env (script stasUtxo)))"
    by (rule core_redeem)
next
  assume "unSigned env ownerPublicKey stasUtxo paymentPublicKey paymentUtxo splitDestinations
        data isZeroChange = Inr r2"
  then obtain c where
    "unSignedFunc env ownerPublicKey stasUtxo paymentPublicKey paymentUtxo splitDestinations
       data isZeroChange None None c False = Inr r2"
    using unSigned_Inr by blast
  then show "map_option (\<lambda>t. (satoshis (outputs t ! 0), script (outputs t ! 0))) (result_tx r2) =
      Some (satoshis stasUtxo - sum_list (map satoshis splitDestinations),
            buildP2pkhOutputScript env (getRedeemPublicKeyHash env (script stasUtxo)))"
    by (rule core_redeem)
qed

text \<open>
  The example of the specification: a token UTXO of 10000, destinations of 3000 and 4000;
  output 0 carries 3000 to the redemption hash, on all three paths.
\<close>

theorem redeem_output_amount_and_script_witness:
  "map_option (\<lambda>t. (satoshis (outputs t ! 0), script (outputs t ! 0)))
     (builtTx (unSignedFunc sample_env ''02aaaa'' sample_stas ''03pppp'' (Some sample_payment)
        sample_destinations None False None None 112 False)) = Some (3000, ''76a914rrrr88ac'')
   \<and> map_option (\<lambda>t. (satoshis (outputs t ! 0), script (outputs t ! 0)))
     (builtTx (signed sample_env (Some sample_ownerKey) sample_stas sample_destinations
        (Some sample_payment) (Some sample_paymentKey) None False))
       = Some (3000, ''76a914rrrr88ac'')
   \<and> map_option (\<lambda>t. (satoshis (outputs t ! 0), script (outputs t ! 0)))
     (builtTx (unSigned sample_env ''02aaaa'' sample_stas ''03pppp'' (Some sample_payment)
        sample_destinations None False)) = Some (3000, ''76a914rrrr88ac'')"
proof -
  obtain r where a: "unSignedFunc sample_env ''02aaaa'' sample_stas ''03pppp''
      (Some sample_payment) sample_destinations None False None None 112 False = Inr r"
    using sample_core by blast
  obtain r1 where b: "signed sample_env (Some sample_ownerKey) sample_stas
      sample_destinations (Some sample_payment) (Some sample_paymentKey) None False = Inr r1"
    using sample_signed by blast
  from a have c: "unSigned sample_env ''02aaaa'' sample_stas ''03pppp'' (Some sample_payment)
      sample_destinations None False = Inr r"
    by (simp only: sample_unSigned)
  note T = redeem_output_amount_and_script[where env = sample_env
      and ownerPublicKey = "''02aaaa''" and stasUtxo = sample_stas
      and paymentPublicKey = "''03pppp''" and paymentUtxo = "Some sample_payment"
      and splitDestinations = sample_destinations and data = None and isZeroChange = False
      and ownerPrivateKey = None and paymentPrivateKey = None and txCost = 112
      and feeEstimateCall = False and r = r and ownerKey = "Some sample_ownerKey"
      and paymentKey = "Some sample_paymentKey" and ?r1.0 = r1 and ?r2.0 = r]
  have v: "(satoshis sample_stas - sum_list (map satoshis sample_destinations),
            buildP2pkhOutputScript sample_env
              (getRedeemPublicKeyHash sample_env (script sample_stas)))
           = (3000, ''76a914rrrr88ac'')"
    by (simp add: sample_defs)
  from T a b c show ?thesis
    unfolding builtTx_def a b c v by simp
qed

text \<open>
  Claim C2. Whenever a build succeeds, the output list of its transaction is, in this
  order: the redeem output; one re-templated token output per split destination, in the
  order supplied, with that destination's amount; a change output exactly when a payment
  UTXO was supplied and \<open>isZeroChange\<close> is false; a zero-value data output exactly when
  the token kind carries data and a payload was supplied. Its length is
  \<open>1 + |destinations| + (1 if change) + (1 if data)\<close>. For the exported entry points the
  cost entering the change amount is the fee estimate.
\<close>

theorem output_list_order:
  "(unSignedFunc env ownerPublicKey stasUtxo paymentPublicKey paymentUtxo splitDestinations
      data isZeroChange ownerPrivateKey paymentPrivateKey txCost feeEstimateCall = Inr r \<longrightarrow>
      map_option outputs (result_tx r) =
        Some (expectedOutputs env stasUtxo paymentPublicKey paymentUtxo splitDestinations
                data isZeroChange txCost))
   \<and> (signed env ownerKey stasUtxo splitDestinations paymentUtxo paymentKey data
        isZeroChange = Inr r1 \<longrightarrow>
      (\<exists>pk c. paymentKey = Some pk
         \<and> feeEstimate env stasUtxo splitDestinations data isZeroChange = Inr c
         \<and> map_option outputs (result_tx r1) =
             Some (expectedOutputs env stasUtxo (publicKey pk) paymentUtxo
                     splitDestinations data isZeroChange c)))
   \<and> (unSigned env ownerPublicKey stasUtxo paymentPublicKey paymentUtxo splitDestinations
        data isZeroChange = Inr r2 \<longrightarrow>
      (\<exists>c. feeEstimate env stasUtxo splitDestinations data isZeroChange = Inr c
         \<and> map_option outputs (result_tx r2) =
             Some (expectedOutputs env stasUtxo paymentPublicKey paymentUtxo
                     splitDestinations data isZeroChange c)))
   \<and> expectedOutputs env stasUtxo k paymentUtxo splitDestinations data isZeroChange cost =
        \<lparr>satoshis = satoshis stasUtxo - sum_list (map satoshis splitDestinations),
         script = buildP2pkhOutputScript env (getRedeemPublicKeyHash env (script stasUtxo))\<rparr>
        # map (\<lambda>d. \<lparr>satoshis = satoshis d,
                     script = updateStasScript env (addressToPKH env (address d))
                                (script stasUtxo)\<rparr>) splitDestinations
        @ (if paymentUtxo \<noteq> None \<and> \<not> isZeroChange
           then [\<lparr>satoshis = satoshis (the paymentUtxo) - cost,
                  script = buildP2pkhOutputScript env (getPKHfromPublicKey env k)\<rparr>]
           else [])
        @ (if checkIfStas20 env (script stasUtxo) \<and> data \<noteq> None
           then [\<lparr>satoshis = 0,
                  script = ''006a'' @
                    formatDataToHexStringWithOpCodeConversion env (the data)\<rparr>]
           else [])
   \<and> length (expectedOutputs env stasUtxo k paymentUtxo splitDestinations data
                isZeroChange cost) =
        1 + length splitDestinations
          + (if paymentUtxo \<noteq> None \<and> \<not> isZeroChange then 1 else 0)
          + (if checkIfStas20 env (script stasUtxo) \<and> data \<noteq> None then 1 else 0)"
proof (intro conjI impI)
  assume "unSignedFunc env ownerPublicKey stasUtxo paymentPublicKey paymentUtxo
    splitDestinations data isZeroChange ownerPrivateKey paymentPrivateKey txCost
    feeEstimateCall = Inr r"
  then show "map_option outputs (result_tx r) =
        Some (expectedOutputs env stasUtxo paymentPublicKey paymentUtxo splitDestinations
                data isZeroChange txCost)"
    by (rule unSignedFunc_outputs)
next
  assume "signed env ownerKey stasUtxo splitDestinations paymentUtxo paymentKey data
        isZeroChange = Inr r1"
  then obtain ok pk c where k: "paymentKey = Some pk"
    and f: "feeEstimate env stasUtxo splitDestinations data isZeroChange = Inr c"
    and u: "unSignedFunc env (publicKey ok) stasUtxo (publicKey pk) paymentUtxo
       splitDestinations data isZeroChange (Some ok) (Some pk) c False = Inr r1"
    using signed_Inr by blast
  from unSignedFunc_outputs[OF u] k f
  show "\<exists>pk c. paymentKey = Some pk
         \<and> feeEstimate env stasUtxo splitDestinations data isZeroChange = Inr c
         \<and> map_option outputs (result_tx r1) =
             Some (expectedOutputs env stasUtxo (publicKey pk) paymentUtxo
                     splitDestinations data isZeroChange c)"
    by (intro exI[of _ pk] exI[of _ c] conjI) simp_all
next
  assume "unSigned env ownerPublicKey stasUtxo paymentPublicKey paymentUtxo splitDestinations
        data isZeroChange = Inr r2"
  then obtain c where
    f: "feeEstimate env stasUtxo splitDestinations data isZeroChange = Inr c"
    and u: "unSignedFunc env ownerPublicKey stasUtxo paymentPublicKey paymentUtxo
       splitDestinations data isZeroChange None None c False = Inr r2"
    using unSigned_Inr by blast
  from unSignedFunc_outputs[OF u] f
  show "\<exists>c. feeEstimate env stasUtxo splitDestinations data isZeroChange = Inr c
         \<and> map_option outputs (result_tx r2) =
             Some (expectedOutputs env stasUtxo paymentPublicKey paymentUtxo
                     splitDestinations data isZeroChange c)"
    by (intro exI[of _ c] conjI) simp_all
next
  show "expectedOutputs env stasUtxo k paymentUtxo splitDestinations data isZeroChange cost =
        \<lparr>satoshis = satoshis stasUtxo - sum_list (map satoshis splitDestinations),
         script = buildP2pkhOutputScript env (getRedeemPublicKeyHash env (script stasUtxo))\<rparr>
        # map (\<lambda>d. \<lparr>satoshis = satoshis d,
                     script = updateStasScript env (addressToPKH env (address d))
                                (script stasUtxo)\<rparr>) splitDestinations
        @ (if paymentUtxo \<noteq> None \<and> \<not> isZeroChange
           then [\<lparr>satoshis = satoshis (the paymentUtxo) - cost,
                  script = buildP2pkhOutputScript env (getPKHfromPublicKey env k)\<rparr>]
           else [])
        @ (if checkIfStas20 env (script stasUtxo) \<and> data \<noteq> None
           then [\<lparr>satoshis = 0,
                  script = ''006a'' @
                    formatDataToHexStringWithOpCodeConversion env (the data)\<rparr>]
           else [])"
    by (auto simp: expectedOutputs_def redeemOutput_def destinationOutput_def
        changeOutputs_def dataOutputs_def split: option.split)
next
  show "length (expectedOutputs env stasUtxo k paymentUtxo splitDestinations data
                isZeroChange cost) =
        1 + length splitDestinations
          + (if paymentUtxo \<noteq> None \<and> \<not> isZeroChange then 1 else 0)
          + (if checkIfStas20 env (script stasUtxo) \<and> data \<noteq> None then 1 else 0)"
    by (rule length_expectedOutputs)
qed

text \<open>
  The example of the specification, with the change output: amounts 3000, 3000, 4000 and
  \<open>paymentUtxo.satoshis - txCost = 1000 - 112\<close>.
\<close>

theorem output_list_order_witness:
  "map_option (\<lambda>t. map satoshis (outputs t))
     (builtTx (unSignedFunc sample_env ''02aaaa'' sample_stas ''03pppp'' (Some sample_payment)
        sample_destinations None False None None 112 False)) = Some [3000, 3000, 4000, 888]
   \<and> map_option (\<lambda>t. map satoshis (outputs t))
     (builtTx (signed sample_env (Some sample_ownerKey) sample_stas sample_destinations
        (Some sample_payment) (Some sample_paymentKey) None False))
       = Some [3000, 3000, 4000, 888]
   \<and> map_option (\<lambda>t. map satoshis (outputs t))
     (builtTx (unSigned sample_env ''02aaaa'' sample_stas ''03pppp'' (Some sample_payment)
        sample_destinations None False)) = Some [3000, 3000, 4000, 888]"
proof -
  obtain r where a: "unSignedFunc sample_env ''02aaaa'' sample_stas ''03pppp''
      (Some sample_payment) sample_destinations None False None None 112 False = Inr r"
    using sample_core by blast
  obtain r1 where b: "signed sample_env (Some sample_ownerKey) sample_stas
      sample_destinations (Some sample_payment) (Some sample_paymentKey) None False = Inr r1"
    using sample_signed by blast
  from a have c: "unSigned sample_env ''02aaaa'' sample_stas ''03pppp'' (Some sample_payment)
      sample_destinations None False = Inr r"
    by (simp only: sample_unSigned)
  have v: "map satoshis (expectedOutputs sample_env sample_stas ''03pppp''
             (Some sample_payment) sample_destinations None False 112)
           = [3000, 3000, 4000, 888]"
    by (simp add: sample_defs plan_defs)
  have k: "publicKey sample_paymentKey = ''03pppp''"
    by (simp add: sample_defs)
  from output_list_order[THEN conjunct1, rule_format, OF a]
  obtain t where t: "result_tx r = Some t"
    "outputs t = expectedOutputs sample_env sample_stas ''03pppp'' (Some sample_payment)
                   sample_destinations None False 112"
    by auto
  from output_list_order[THEN conjunct2, THEN conjunct1, rule_format, OF b]
  obtain pk c t1 where "Some sample_paymentKey = Some pk"
    "feeEstimate sample_env sample_stas sample_destinations None False = Inr c"
    "result_tx r1 = Some t1"
    "outputs t1 = expectedOutputs sample_env sample_stas (publicKey pk)
                    (Some sample_payment) sample_destinations None False c"
    by auto
  then have t1: "result_tx r1 = Some t1"
    "outputs t1 = expectedOutputs sample_env sample_stas ''03pppp'' (Some sample_payment)
                    sample_destinations None False 112"
    using sample_fee k by simp_all
  from output_list_order[THEN conjunct2, THEN conjunct2, THEN conjunct1, rule_format, OF c]
  obtain c' t2 where
    "feeEstimate sample_env sample_stas sample_destinations None False = Inr c'"
    "result_tx r = Some t2"
    "outputs t2 = expectedOutputs sample_env sample_stas ''03pppp''
                    (Some sample_payment) sample_destinations None False c'"
    by auto
  then have t2: "result_tx r = Some t2"
    "outputs t2 = expectedOutputs sample_env sample_stas ''03pppp'' (Some sample_payment)
                    sample_destinations None False 112"
    using sample_fee by simp_all
  show ?thesis
    unfolding builtTx_def a b c by (simp add: t t1 v)
qed

text \<open>
  Claim C3. If both private keys are supplied, the build resolves with a result that has
  no \<open>unsignedData\<close> and every input of its transaction has a non-empty unlocking script.
  If the key of an input is omitted, the build resolves with \<open>{unsignedData, tx}\<close>, where
  \<open>unsignedData\<close> holds exactly one descriptor for that input: its index (0 for the token
  input, 1 for the payment input), the spent output's locking script and amount, the
  signature-hash mode, the associated public key, and a flag that is true exactly for the
  token input.
\<close>

theorem signing_result:
  assumes "unSignedFunc env ownerPublicKey stasUtxo paymentPublicKey paymentUtxo
             splitDestinations data isZeroChange ownerPrivateKey paymentPrivateKey txCost
             feeEstimateCall = Inr r"
  shows "(ownerPrivateKey \<noteq> None \<and> paymentPrivateKey \<noteq> None \<longrightarrow>
            result_unsignedData r = None \<and>
            (\<exists>tx. r = TxObject tx \<and> (\<forall>i \<in> set (inputs tx). unlockingScript i \<noteq> [])))
       \<and> (ownerPrivateKey = None \<longrightarrow>
            (\<exists>uds tx. r = UnsignedObject uds tx \<and>
               filter (\<lambda>d. inputIndex d = 0) uds =
                 [\<lparr>satoshis = satoshis stasUtxo, script = script stasUtxo, inputIndex = 0,
                   sighash = SIGHASH env, publicKeyString = ownerPublicKey, stas = True\<rparr>]))
       \<and> (paymentPrivateKey = None \<longrightarrow>
            (\<forall>p. paymentUtxo = Some p \<longrightarrow>
               (\<exists>uds tx. r = UnsignedObject uds tx \<and>
                  filter (\<lambda>d. inputIndex d = 1) uds =
                    [\<lparr>satoshis = satoshis p, script = script p, inputIndex = 1,
                      sighash = SIGHASH env, publicKeyString = paymentPublicKey,
                      stas = False\<rparr>])))
       \<and> (\<forall>d \<in> set (case result_unsignedData r of None \<Rightarrow> [] | Some uds \<Rightarrow> uds).
            stas d = (inputIndex d = 0))"
  using assms
  by (auto simp: unSignedFunc_eq signOwner_def signPayment_def resultOf_def
      plannedInputs_def setScript_def ownerDescriptor_def paymentDescriptor_def Let_def
      split: if_splits sum.splits option.splits)

theorem signing_result_witness:
  "map_option (\<lambda>t. map unlockingScript (inputs t))
     (builtTx (signed sample_env (Some sample_ownerKey) sample_stas sample_destinations
        (Some sample_payment) (Some sample_paymentKey) None False))
     = Some [''rrrrbbbbccccpppp 3002aaaa 02aaaa'', ''3003pppp 03pppp'']
   \<and> (case unSignedFunc sample_env ''02aaaa'' sample_stas ''03pppp'' (Some sample_payment)
              sample_destinations None False None None 112 False of
         Inl e \<Rightarrow> False
       | Inr r \<Rightarrow>
           map_option (filter (\<lambda>d. inputIndex d = 0)) (result_unsignedData r) =
             Some [\<lparr>satoshis = 10000, script = ''aaaarrrr10'', inputIndex = 0, sighash = 65,
                    publicKeyString = ''02aaaa'', stas = True\<rparr>]
           \<and> map_option (filter (\<lambda>d. inputIndex d = 1)) (result_unsignedData r) =
             Some [\<lparr>satoshis = 1000, script = ''76a914pppp88ac'', inputIndex = 1,
                    sighash = 65, publicKeyString = ''03pppp'', stas = False\<rparr>])"
proof -
  obtain r where a: "unSignedFunc sample_env ''02aaaa'' sample_stas ''03pppp''
      (Some sample_payment) sample_destinations None False None None 112 False = Inr r"
    using sample_core by blast
  have v: "satoshis sample_stas = 10000" "script sample_stas = ''aaaarrrr10''"
    "satoshis sample_payment = 1000" "script sample_payment = ''76a914pppp88ac''"
    "SIGHASH sample_env = 65"
    by (simp_all add: sample_defs)
  from signing_result[OF a] have
    "map_option (filter (\<lambda>d. inputIndex d = 0)) (result_unsignedData r) =
             Some [\<lparr>satoshis = 10000, script = ''aaaarrrr10'', inputIndex = 0, sighash = 65,
                    publicKeyString = ''02aaaa'', stas = True\<rparr>]
     \<and> map_option (filter (\<lambda>d. inputIndex d = 1)) (result_unsignedData r) =
             Some [\<lparr>satoshis = 1000, script = ''76a914pppp88ac'', inputIndex = 1,
                    sighash = 65, publicKeyString = ''03pppp'', stas = False\<rparr>]"
    using v by auto
  then show ?thesis
    unfolding a by (simp add: sample_signed builtTx_def)
qed

text \<open>
  Claim C4, as amended. When a payment UTXO is supplied and change is requested
  (\<open>isZeroChange\<close> false), the build makes no change-sufficiency check: its outcome does
  not depend on \<^verbatim>\<open>checkZeroChangeThreshold\<close>. Every successful build carries, right
  after the destination outputs, a change output of amount
  \<open>paymentUtxo.satoshis - txCost\<close>.
\<close>

theorem change_output_without_check:
  "unSignedFunc (env\<lparr>checkZeroChangeThreshold := f\<rparr>) ownerPublicKey stasUtxo
      paymentPublicKey (Some p) splitDestinations data False ownerPrivateKey
      paymentPrivateKey txCost feeEstimateCall =
   unSignedFunc env ownerPublicKey stasUtxo paymentPublicKey (Some p) splitDestinations data
      False ownerPrivateKey paymentPrivateKey txCost feeEstimateCall
   \<and> (unSignedFunc env ownerPublicKey stasUtxo paymentPublicKey (Some p) splitDestinations
        data False ownerPrivateKey paymentPrivateKey txCost feeEstimateCall = Inr r \<longrightarrow>
      map_option (\<lambda>t. outputs t ! (1 + length splitDestinations)) (result_tx r) =
        Some \<lparr>satoshis = satoshis p - txCost,
              script = buildP2pkhOutputScript env
                         (getPKHfromPublicKey env paymentPublicKey)\<rparr>)"
proof (intro conjI impI)
  show "unSignedFunc (env\<lparr>checkZeroChangeThreshold := f\<rparr>) ownerPublicKey stasUtxo
      paymentPublicKey (Some p) splitDestinations data False ownerPrivateKey
      paymentPrivateKey txCost feeEstimateCall =
   unSignedFunc env ownerPublicKey stasUtxo paymentPublicKey (Some p) splitDestinations data
      False ownerPrivateKey paymentPrivateKey txCost feeEstimateCall"
    by (rule unSignedFunc_check_irrelevant) simp
next
  assume a: "unSignedFunc env ownerPublicKey stasUtxo paymentPublicKey (Some p)
    splitDestinations data False ownerPrivateKey paymentPrivateKey txCost feeEstimateCall
    = Inr r"
  from unSignedFunc_outputs[OF a] obtain t where
    t: "result_tx r = Some t"
       "outputs t = expectedOutputs env stasUtxo paymentPublicKey (Some p)
                      splitDestinations data False txCost"
    by auto
  have "expectedOutputs env stasUtxo paymentPublicKey (Some p) splitDestinations data False
          txCost ! (1 + length splitDestinations) =
        \<lparr>satoshis = satoshis p - txCost,
         script = buildP2pkhOutputScript env (getPKHfromPublicKey env paymentPublicKey)\<rparr>"
    by (simp add: expectedOutputs_def changeOutputs_def nth_append)
  with t show "map_option (\<lambda>t. outputs t ! (1 + length splitDestinations)) (result_tx r) =
        Some \<lparr>satoshis = satoshis p - txCost,
              script = buildP2pkhOutputScript env
                         (getPKHfromPublicKey env paymentPublicKey)\<rparr>"
    by simp
qed

theorem change_output_without_check_witness:
  "map_option (\<lambda>t. outputs t ! 3)
     (builtTx (unSignedFunc sample_env ''02aaaa'' sample_stas ''03pppp'' (Some sample_payment)
        sample_destinations None False None None 112 False)) =
   Some \<lparr>satoshis = 888, script = ''76a914pppp88ac''\<rparr>"
proof -
  obtain r where a: "unSignedFunc sample_env ''02aaaa'' sample_stas ''03pppp''
      (Some sample_payment) sample_destinations None False None None 112 False = Inr r"
    using sample_core by blast
  have v: "1 + length sample_destinations = 3"
    "\<lparr>satoshis = satoshis sample_payment - 112,
      script = buildP2pkhOutputScript sample_env (getPKHfromPublicKey sample_env ''03pppp'')\<rparr>
     = \<lparr>satoshis = 888, script = ''76a914pppp88ac''\<rparr>"
    by (simp_all add: sample_defs)
  from change_output_without_check[THEN conjunct2, rule_format, OF a]
  show ?thesis
    unfolding builtTx_def a v by simp
qed

text \<open>
  Claim C4 as stated fails. The payment UTXO holds 1000 and the cost is 1000, so the payment
  cannot cover the cost plus any positive dust threshold, not even a threshold of 1; change
  is requested and this is no fee-estimation pass. The build succeeds, with a change output
  of amount 0.
\<close>

theorem change_below_dust_counterexample:
  "satoshis sample_payment < 1000 + 1
   \<and> map_option (\<lambda>t. map satoshis (outputs t))
       (builtTx (unSignedFunc sample_env ''02aaaa'' sample_stas ''03pppp''
          (Some sample_payment) sample_destinations None False None None 1000 False)) =
     Some [3000, 3000, 4000, 0]"
  by (simp add: sample_defs build_defs)

text \<open>
  Claim C5. With \<open>isZeroChange\<close> true and outside a fee-estimation call, a payment UTXO
  whose amount less \<open>txCost\<close> is below the dust threshold makes the build fail with the
  insufficient-change error (the argument validation and the destination checks come
  first and have their own errors). In a fee-estimation call the check is skipped: the
  outcome does not depend on \<^verbatim>\<open>checkZeroChangeThreshold\<close>. The check itself is the one
  the specification describes, \<open>checkZeroChangeThreshold_spec\<close>.
\<close>

theorem zero_change_threshold_check:
  "(checkZeroChangeThreshold env = (\<lambda>paymentSats c name.
       checkZeroChangeThreshold_spec dust paymentSats c)
     \<and> satoshis p - txCost < dust \<longrightarrow>
    unSignedFunc env ownerPublicKey stasUtxo paymentPublicKey (Some p) splitDestinations data
      True ownerPrivateKey paymentPrivateKey txCost False =
      (if \<not> validateRedeemSplitArgs env ownerPublicKey stasUtxo paymentPublicKey (Some p)
              splitDestinations
       then Inl ArgumentValidation
       else if \<not> destinationsOk env stasUtxo splitDestinations
       then Inl DestinationCompatibility
       else Inl InsufficientChange))
   \<and> unSignedFunc (env\<lparr>checkZeroChangeThreshold := f\<rparr>) ownerPublicKey stasUtxo
        paymentPublicKey paymentUtxo splitDestinations data isZeroChange ownerPrivateKey
        paymentPrivateKey txCost True =
      unSignedFunc env ownerPublicKey stasUtxo paymentPublicKey paymentUtxo splitDestinations
        data isZeroChange ownerPrivateKey paymentPrivateKey txCost True"
proof (intro conjI impI)
  assume "checkZeroChangeThreshold env = (\<lambda>paymentSats c name.
       checkZeroChangeThreshold_spec dust paymentSats c) \<and> satoshis p - txCost < dust"
  then have "zeroChangeStage env (Some p) True txCost False = Inl InsufficientChange"
    by (simp add: zeroChangeStage_def checkZeroChangeThreshold_spec_def)
  then show "unSignedFunc env ownerPublicKey stasUtxo paymentPublicKey (Some p)
      splitDestinations data True ownerPrivateKey paymentPrivateKey txCost False =
      (if \<not> validateRedeemSplitArgs env ownerPublicKey stasUtxo paymentPublicKey (Some p)
              splitDestinations
       then Inl ArgumentValidation
       else if \<not> destinationsOk env stasUtxo splitDestinations
       then Inl DestinationCompatibility
       else Inl InsufficientChange)"
    by (simp add: unSignedFunc_eq)
next
  show "unSignedFunc (env\<lparr>checkZeroChangeThreshold := f\<rparr>) ownerPublicKey stasUtxo
        paymentPublicKey paymentUtxo splitDestinations data isZeroChange ownerPrivateKey
        paymentPrivateKey txCost True =
      unSignedFunc env ownerPublicKey stasUtxo paymentPublicKey paymentUtxo splitDestinations
        data isZeroChange ownerPrivateKey paymentPrivateKey txCost True"
    by (rule unSignedFunc_check_irrelevant) simp
qed

text \<open>
  With a threshold of 546, a payment of 1000 and a cost of 900 leave 100: the build fails
  with the insufficient-change error.
\<close>

theorem zero_change_threshold_check_witness:
  "checkZeroChangeThreshold sample_env =
     (\<lambda>paymentSats c name. checkZeroChangeThreshold_spec 546 paymentSats c)
   \<and> satoshis sample_payment - 900 < 546
   \<and> unSignedFunc sample_env ''02aaaa'' sample_stas ''03pppp'' (Some sample_payment)
       sample_destinations None True None None 900 False = Inl InsufficientChange"
proof -
  have h: "checkZeroChangeThreshold sample_env =
     (\<lambda>paymentSats c name. checkZeroChangeThreshold_spec 546 paymentSats c)
   \<and> satoshis sample_payment - 900 < 546"
    by (simp add: sample_env_def sample_payment_def)
  have v: "validateRedeemSplitArgs sample_env ''02aaaa'' sample_stas ''03pppp''
             (Some sample_payment) sample_destinations"
    "destinationsOk sample_env sample_stas sample_destinations"
    by (simp_all add: sample_defs destinationsOk_def)
  from zero_change_threshold_check[THEN conjunct1, rule_format, OF h,
      where ownerPublicKey = "''02aaaa''" and stasUtxo = sample_stas
        and paymentPublicKey = "''03pppp''" and splitDestinations = sample_destinations]
  have "unSignedFunc sample_env ''02aaaa'' sample_stas ''03pppp'' (Some sample_payment)
       sample_destinations None True None None 900 False = Inl InsufficientChange"
    by (simp only: v not_True_eq_False if_False)
  with h show ?thesis by blast
qed

text \<open>
  Claim C6, as amended. For every successful build, the output plan handed to the
  unlocking-script builder has exactly one entry for each produced output other than the
  data-carrier output, in the order of the transaction's output list, each entry carrying
  that output's amount and the public-key hash its locking script is built from (the
  redemption hash for output 0, the destination hashes for the token outputs, the payment
  hash for the change output). The data-carrier output, when produced, is last in the
  output list and has no plan entry; the builder receives the formatted payload as a
  separate argument.
\<close>

theorem output_plan_alignment:
  assumes "unSignedFunc env ownerPublicKey stasUtxo paymentPublicKey paymentUtxo
             splitDestinations data isZeroChange ownerPrivateKey paymentPrivateKey txCost
             feeEstimateCall = Inr r"
  shows "\<exists>tx outputData data'.
      planOutputs env stasUtxo paymentPublicKey paymentUtxo splitDestinations data
        isZeroChange txCost feeEstimateCall = Inr (tx, outputData, data')
    \<and> r = resultOf (signPayment env paymentPublicKey paymentUtxo paymentPrivateKey
              (signOwner env ownerPublicKey ownerPrivateKey
                 (buildUnlockingScriptUnsigned env tx outputData
                    (checkIfStas20 env (script stasUtxo)) data' (paymentUtxo = None)
                    isZeroChange) tx))
    \<and> map_option outputs (result_tx r) = Some (outputs tx)
    \<and> length outputData + length (dataOutputs env stasUtxo data) = length (outputs tx)
    \<and> map satoshis outputData = map satoshis (take (length outputData) (outputs tx))
    \<and> map script (take (length outputData) (outputs tx)) =
        buildP2pkhOutputScript env (publicKeyHash (outputData ! 0))
        # map (\<lambda>e. updateStasScript env (publicKeyHash e) (script stasUtxo))
            (take (length splitDestinations) (tl outputData))
        @ map (\<lambda>e. buildP2pkhOutputScript env (publicKeyHash e))
            (drop (Suc (length splitDestinations)) outputData)
    \<and> drop (length outputData) (outputs tx) = dataOutputs env stasUtxo data
    \<and> data' = dataHanded env stasUtxo data"
proof -
  let ?tx = "\<lparr>inputs = plannedInputs stasUtxo paymentUtxo,
              outputs = expectedOutputs env stasUtxo paymentPublicKey paymentUtxo
                          splitDestinations data isZeroChange txCost\<rparr>"
  let ?od = "expectedPlan env stasUtxo paymentPublicKey paymentUtxo splitDestinations
               isZeroChange txCost"
  from assms have p: "planOutputs env stasUtxo paymentPublicKey paymentUtxo splitDestinations
        data isZeroChange txCost feeEstimateCall = Inr (?tx, ?od, dataHanded env stasUtxo data)"
    by (auto simp: unSignedFunc_eq planOutputs_eq split: if_splits sum.splits)
  from assms have r: "r = resultOf (signPayment env paymentPublicKey paymentUtxo
              paymentPrivateKey
              (signOwner env ownerPublicKey ownerPrivateKey
                 (buildUnlockingScriptUnsigned env ?tx ?od
                    (checkIfStas20 env (script stasUtxo)) (dataHanded env stasUtxo data)
                    (paymentUtxo = None) isZeroChange) ?tx))"
    by (auto simp: unSignedFunc_eq split: if_splits sum.splits)
  have o: "map_option outputs (result_tx r) = Some (outputs ?tx)"
    using unSignedFunc_outputs[OF assms] by simp
  have l: "length ?od + length (dataOutputs env stasUtxo data) = length (outputs ?tx)"
    by (simp add: length_expectedPlan expectedOutputs_def)
  have s: "map satoshis ?od = map satoshis (take (length ?od) (outputs ?tx))"
    by (simp only: transaction.simps take_plan_expectedOutputs satoshis_plan)
  have c: "map script (take (length ?od) (outputs ?tx)) =
        buildP2pkhOutputScript env (publicKeyHash (?od ! 0))
        # map (\<lambda>e. updateStasScript env (publicKeyHash e) (script stasUtxo))
            (take (length splitDestinations) (tl ?od))
        @ map (\<lambda>e. buildP2pkhOutputScript env (publicKeyHash e))
            (drop (Suc (length splitDestinations)) ?od)"
    by (simp only: transaction.simps take_plan_expectedOutputs scripts_plan)
  have d: "drop (length ?od) (outputs ?tx) = dataOutputs env stasUtxo data"
    by (simp only: transaction.simps drop_plan_expectedOutputs)
  show ?thesis
    by (intro exI conjI) (rule p, rule r, rule o, rule l, rule s, rule c, rule d, rule refl)
qed

lemma sample_core20:
  "unSignedFunc sample_env ''02aaaa'' sample_stas20 ''03pppp'' (Some sample_payment)
     sample_destinations (Some ''6869'') False None None 120 False =
   Inr (UnsignedObject
     [\<lparr>satoshis = 10000, script = ''aaaarrrr20ffffffff'', inputIndex = 0, sighash = 65,
       publicKeyString = ''02aaaa'', stas = True\<rparr>,
      \<lparr>satoshis = 1000, script = ''76a914pppp88ac'', inputIndex = 1, sighash = 65,
       publicKeyString = ''03pppp'', stas = False\<rparr>]
     \<lparr>inputs =
        [\<lparr>spent = sample_stas20, unlockingScript = ''rrrrbbbbccccpppp''\<rparr>,
         \<lparr>spent = sample_payment, unlockingScript = []\<rparr>],
      outputs =
        [\<lparr>satoshis = 3000, script = ''76a914rrrr88ac''\<rparr>,
         \<lparr>satoshis = 3000, script = ''bbbbrrrr20ffffffff''\<rparr>,
         \<lparr>satoshis = 4000, script = ''ccccrrrr20ffffffff''\<rparr>,
         \<lparr>satoshis = 880, script = ''76a914pppp88ac''\<rparr>,
         \<lparr>satoshis = 0, script = ''006a6869''\<rparr>]\<rparr>)"
  by (simp add: sample_defs build_defs)

text \<open>
  A data-carrying token with a payload: the plan is aligned with the first four of the
  five outputs, and the fifth is the data output.
\<close>

theorem output_plan_alignment_witness:
  "(case planOutputs sample_env sample_stas20 ''03pppp'' (Some sample_payment)
           sample_destinations (Some ''6869'') False 120 False of
      Inl e \<Rightarrow> False
    | Inr (tx, outputData, data') \<Rightarrow>
        map satoshis outputData = map satoshis (take (length outputData) (outputs tx))
        \<and> length outputData + 1 = length (outputs tx)
        \<and> drop (length outputData) (outputs tx) = [\<lparr>satoshis = 0, script = ''006a6869''\<rparr>]
        \<and> data' = Some ''6869'')"
proof -
  obtain r where a: "unSignedFunc sample_env ''02aaaa'' sample_stas20 ''03pppp''
      (Some sample_payment) sample_destinations (Some ''6869'') False None None 120 False
      = Inr r"
    using sample_core20 by blast
  have v: "dataOutputs sample_env sample_stas20 (Some ''6869'') =
             [\<lparr>satoshis = 0, script = ''006a6869''\<rparr>]"
    "dataHanded sample_env sample_stas20 (Some ''6869'') = Some ''6869''"
    by (simp_all add: sample_defs plan_defs)
  from output_plan_alignment[OF a] obtain tx outputData data' where
    p: "planOutputs sample_env sample_stas20 ''03pppp'' (Some sample_payment)
          sample_destinations (Some ''6869'') False 120 False = Inr (tx, outputData, data')"
    and f: "length outputData + length (dataOutputs sample_env sample_stas20 (Some ''6869''))
          = length (outputs tx)"
      "map satoshis outputData = map satoshis (take (length outputData) (outputs tx))"
      "drop (length outputData) (outputs tx) = dataOutputs sample_env sample_stas20
          (Some ''6869'')"
      "data' = dataHanded sample_env sample_stas20 (Some ''6869'')"
    by blast
  from f show ?thesis
    unfolding p v by simp
qed

text \<open>
  Claim C6 as stated fails: with a data-carrying token and a payload, the transaction has
  five outputs and the plan handed to the builder has four entries.
\<close>

theorem data_output_without_plan_entry_counterexample:
  "map_sum id (\<lambda>(tx, outputData, data'). (length (outputs tx), length outputData))
     (planOutputs sample_env sample_stas20 ''03pppp'' (Some sample_payment)
        sample_destinations (Some ''6869'') False 120 False) = Inr (5, 4)"
  by (simp add: sample_defs build_defs)

text \<open>
  Claim C7, as amended. The fee-estimation entry point builds its measurement
  transaction on the caller's own token UTXO (no template token UTXO exists), with the
  split destinations that \<^verbatim>\<open>buildSplitDestinations\<close> returns for the requested
  destination count and the token UTXO's amount, the template payment UTXO, and the one
  template key pair in both the owner and the payment role. It runs the full signed build
  with the estimator's \<^verbatim>\<open>txCost\<close> constant and \<open>feeEstimateCall\<close> true, so that the
  outcome does not depend on \<^verbatim>\<open>checkZeroChangeThreshold\<close>, and returns the library's
  fee estimate of the resulting transaction at the fixed rate \<^verbatim>\<open>utility.SATS\<close>.
\<close>

theorem fee_estimate_measurement:
  "feeEstimateBuild env stasUtxo splitDestinations data isZeroChange =
     unSignedFunc env (publicKey (templatePrivateKey env)) stasUtxo
       (publicKey (templatePrivateKey env)) (Some (paymentUtxoTemplate env))
       (buildSplitDestinations env (length splitDestinations) (satoshis stasUtxo)) data
       isZeroChange (Some (templatePrivateKey env)) (Some (templatePrivateKey env))
       (feeEstimates_txCost env) True
   \<and> feeEstimate (env\<lparr>checkZeroChangeThreshold := f\<rparr>) stasUtxo splitDestinations data
        isZeroChange = feeEstimate env stasUtxo splitDestinations data isZeroChange
   \<and> (feeEstimate env stasUtxo splitDestinations data isZeroChange = Inr fee \<longrightarrow>
       (\<exists>tx. feeEstimateBuild env stasUtxo splitDestinations data isZeroChange
                = Inr (TxObject tx)
          \<and> fee = estimateFee env (SATS env) tx
          \<and> map spent (inputs tx) = [stasUtxo, paymentUtxoTemplate env]
          \<and> outputs tx =
              expectedOutputs env stasUtxo (publicKey (templatePrivateKey env))
                (Some (paymentUtxoTemplate env))
                (buildSplitDestinations env (length splitDestinations) (satoshis stasUtxo))
                data isZeroChange (feeEstimates_txCost env)))"
proof (intro conjI impI)
  show "feeEstimateBuild env stasUtxo splitDestinations data isZeroChange =
     unSignedFunc env (publicKey (templatePrivateKey env)) stasUtxo
       (publicKey (templatePrivateKey env)) (Some (paymentUtxoTemplate env))
       (buildSplitDestinations env (length splitDestinations) (satoshis stasUtxo)) data
       isZeroChange (Some (templatePrivateKey env)) (Some (templatePrivateKey env))
       (feeEstimates_txCost env) True"
    by (rule feeEstimateBuild_eq)
next
  have "feeEstimateBuild (env\<lparr>checkZeroChangeThreshold := f\<rparr>) stasUtxo splitDestinations
          data isZeroChange = feeEstimateBuild env stasUtxo splitDestinations data isZeroChange"
    using unSignedFunc_check_irrelevant[where feeEstimateCall = True and env = env and f = f]
    by (simp add: feeEstimateBuild_eq)
  then show "feeEstimate (env\<lparr>checkZeroChangeThreshold := f\<rparr>) stasUtxo splitDestinations
      data isZeroChange = feeEstimate env stasUtxo splitDestinations data isZeroChange"
    by (simp add: feeEstimate_def thenE_def split: sum.split build_result.split)
next
  assume a: "feeEstimate env stasUtxo splitDestinations data isZeroChange = Inr fee"
  then obtain r where r: "feeEstimateBuild env stasUtxo splitDestinations data isZeroChange
      = Inr r"
    by (auto simp: feeEstimate_def thenE_def split: sum.splits)
  from feeEstimateBuild_signed[OF r] obtain tx where tx: "r = TxObject tx"
    by (cases r) auto
  from a r tx have f: "fee = estimateFee env (SATS env) tx"
    by (simp add: feeEstimate_def thenE_def)
  from r have u: "unSignedFunc env (publicKey (templatePrivateKey env)) stasUtxo
       (publicKey (templatePrivateKey env)) (Some (paymentUtxoTemplate env))
       (buildSplitDestinations env (length splitDestinations) (satoshis stasUtxo)) data
       isZeroChange (Some (templatePrivateKey env)) (Some (templatePrivateKey env))
       (feeEstimates_txCost env) True = Inr r"
    by (simp add: feeEstimateBuild_eq)
  from unSignedFunc_inputs[OF u] tx
  have i: "map spent (inputs tx) = [stasUtxo, paymentUtxoTemplate env]" by simp
  from unSignedFunc_outputs[OF u] tx
  have o: "outputs tx = expectedOutputs env stasUtxo (publicKey (templatePrivateKey env))
                (Some (paymentUtxoTemplate env))
                (buildSplitDestinations env (length splitDestinations) (satoshis stasUtxo))
                data isZeroChange (feeEstimates_txCost env)" by simp
  from r tx f i o show "\<exists>tx. feeEstimateBuild env stasUtxo splitDestinations data isZeroChange
                = Inr (TxObject tx)
          \<and> fee = estimateFee env (SATS env) tx
          \<and> map spent (inputs tx) = [stasUtxo, paymentUtxoTemplate env]
          \<and> outputs tx =
              expectedOutputs env stasUtxo (publicKey (templatePrivateKey env))
                (Some (paymentUtxoTemplate env))
                (buildSplitDestinations env (length splitDestinations) (satoshis stasUtxo))
                data isZeroChange (feeEstimates_txCost env)"
    by (intro exI[of _ tx] conjI) simp_all
qed

theorem fee_estimate_measurement_witness:
  "feeEstimate sample_env sample_stas sample_destinations None False = Inr 112
   \<and> map_option (\<lambda>t. (map spent (inputs t), map satoshis (outputs t)))
       (builtTx (feeEstimateBuild sample_env sample_stas sample_destinations None False)) =
     Some ([sample_stas, paymentUtxoTemplate sample_env], [3334, 3333, 3333, 1000000])"
proof -
  have v: "map satoshis (expectedOutputs sample_env sample_stas
             (publicKey (templatePrivateKey sample_env))
             (Some (paymentUtxoTemplate sample_env))
             (buildSplitDestinations sample_env (length sample_destinations)
                (satoshis sample_stas))
             None False (feeEstimates_txCost sample_env)) = [3334, 3333, 3333, 1000000]"
    by (simp add: sample_defs plan_defs)
  from fee_estimate_measurement[THEN conjunct2, THEN conjunct2, rule_format, OF sample_fee]
  obtain tx where
    "feeEstimateBuild sample_env sample_stas sample_destinations None False
       = Inr (TxObject tx)"
    "map spent (inputs tx) = [sample_stas, paymentUtxoTemplate sample_env]"
    "outputs tx = expectedOutputs sample_env sample_stas
             (publicKey (templatePrivateKey sample_env))
             (Some (paymentUtxoTemplate sample_env))
             (buildSplitDestinations sample_env (length sample_destinations)
                (satoshis sample_stas))
             None False (feeEstimates_txCost sample_env)"
    by (elim exE conjE) (rule that)
  with v show ?thesis
    by (simp add: sample_fee builtTx_def)
qed

text \<open>
  Claim C7 as stated fails: the token input of the measurement transaction is the
  caller's token UTXO, so two callers with different token UTXOs get measurement
  transactions that spend different token outputs.
\<close>

theorem measurement_uses_caller_token_utxo_counterexample:
  "map_option (\<lambda>t. map spent (inputs t))
     (builtTx (feeEstimateBuild sample_env sample_stas sample_destinations None False)) =
     Some [sample_stas, paymentUtxoTemplate sample_env]
   \<and> map_option (\<lambda>t. map spent (inputs t))
     (builtTx (feeEstimateBuild sample_env sample_stas20 sample_destinations None False)) =
     Some [sample_stas20, paymentUtxoTemplate sample_env]
   \<and> sample_stas \<noteq> sample_stas20"
  by (simp add: sample_defs build_defs)

text \<open>
  Claim C8, as amended. Two calls to the fee-estimate entry point that agree on the token
  UTXO, the data payload, the change flag and the number of destinations return the same
  fee (or fail alike), whatever the destinations' addresses and amounts.
\<close>

theorem fee_estimate_ignores_destination_details:
  "length splitDestinations1 = length splitDestinations2 \<Longrightarrow>
   feeEstimate env stasUtxo splitDestinations1 data isZeroChange =
   feeEstimate env stasUtxo splitDestinations2 data isZeroChange"
  by (simp add: feeEstimate_def feeEstimateBuild_def)

theorem fee_estimate_ignores_destination_details_witness:
  "length sample_destinations =
     length [\<lparr>satoshis = 1, address = ''1yyyy''\<rparr>, \<lparr>satoshis = 2, address = ''1zzzz''\<rparr>]
   \<and> feeEstimate sample_env sample_stas
       [\<lparr>satoshis = 1, address = ''1yyyy''\<rparr>, \<lparr>satoshis = 2, address = ''1zzzz''\<rparr>]
       None False = Inr 112"
proof -
  have h: "length sample_destinations =
     length [\<lparr>satoshis = 1, address = ''1yyyy''\<rparr>, \<lparr>satoshis = 2, address = ''1zzzz''\<rparr>]"
    by (simp add: sample_destinations_def)
  from fee_estimate_ignores_destination_details[OF h, of sample_env sample_stas None False]
    sample_fee h
  show ?thesis by simp
qed

text \<open>
  Claim C8 as stated fails. With two destinations, no data and change requested in both
  calls, a token UTXO with a longer script gives a larger fee; and with data present in
  both calls, a longer payload gives a larger fee.
\<close>

theorem fee_depends_on_token_script_counterexample:
  "feeEstimate sample_env sample_stas sample_destinations None False = Inr 112
   \<and> feeEstimate sample_env sample_stas20 sample_destinations None False = Inr 120
   \<and> feeEstimate sample_env sample_stas20 sample_destinations (Some ''68'') False = Inr 127
   \<and> feeEstimate sample_env sample_stas20 sample_destinations (Some ''68696a6b6c6d'') False
       = Inr 132"
  by (simp add: sample_defs build_defs)

text \<open>
  Claim C9. With both private keys supplied, the signed entry point should resolve with
  the signed transaction as a hexadecimal string. It resolves with the transaction object
  instead: line 115 returns \<^verbatim>\<open>tx\<close> without serialising it.
\<close>

theorem signed_resolves_with_transaction_object:
  "map_sum id is_HexString
     (signed sample_env (Some sample_ownerKey) sample_stas sample_destinations
        (Some sample_payment) (Some sample_paymentKey) None False) = Inr False
   \<and> map_sum id is_TxObject
     (signed sample_env (Some sample_ownerKey) sample_stas sample_destinations
        (Some sample_payment) (Some sample_paymentKey) None False) = Inr True"
  by (simp add: sample_signed)

text \<open>No call of the signed entry point resolves with a hexadecimal string.\<close>

lemma signed_never_hex:
  "signed env ownerKey stasUtxo splitDestinations paymentUtxo paymentKey data isZeroChange
     \<noteq> Inr (HexString h)"
proof
  assume "signed env ownerKey stasUtxo splitDestinations paymentUtxo paymentKey data
            isZeroChange = Inr (HexString h)"
  from signed_Inr[OF this] show False
    by (auto simp: unSignedFunc_never_hex)
qed

text \<open>
  Claim C10. With \<open>isZeroChange\<close> true, \<open>feeEstimateCall\<close> false and no payment UTXO, the
  guard of the zero-change check holds and its argument reads \<open>paymentUtxo.satoshis\<close>:
  once the argument validation and the destination checks have passed, the build fails
  with a \<^verbatim>\<open>TypeError\<close>. It never resolves, neither called directly nor through the
  exported entry points.
\<close>

theorem zero_change_without_payment_utxo:
  "unSignedFunc env ownerPublicKey stasUtxo paymentPublicKey None splitDestinations data
      True ownerPrivateKey paymentPrivateKey txCost False =
    (if \<not> validateRedeemSplitArgs env ownerPublicKey stasUtxo paymentPublicKey None
            splitDestinations
     then Inl ArgumentValidation
     else if \<not> destinationsOk env stasUtxo splitDestinations
     then Inl DestinationCompatibility
     else Inl TypeError)
   \<and> isl (unSigned env ownerPublicKey stasUtxo paymentPublicKey None splitDestinations data
            True)
   \<and> isl (signed env ownerKey stasUtxo splitDestinations None paymentKey data True)"
proof (intro conjI)
  show core: "\<And>opk ppk ok pk c.
      unSignedFunc env opk stasUtxo ppk None splitDestinations data True ok pk c False =
      (if \<not> validateRedeemSplitArgs env opk stasUtxo ppk None splitDestinations
       then Inl ArgumentValidation
       else if \<not> destinationsOk env stasUtxo splitDestinations
       then Inl DestinationCompatibility
       else Inl TypeError)"
    by (simp add: unSignedFunc_eq zeroChangeStage_def)
  show "isl (unSigned env ownerPublicKey stasUtxo paymentPublicKey None splitDestinations
               data True)"
  proof (cases "unSigned env ownerPublicKey stasUtxo paymentPublicKey None splitDestinations
                  data True")
    case (Inl e)
    then show ?thesis by simp
  next
    case (Inr r)
    from unSigned_Inr[OF Inr] show ?thesis
      by (auto simp: core split: if_splits)
  qed
  show "isl (signed env ownerKey stasUtxo splitDestinations None paymentKey data True)"
  proof (cases "signed env ownerKey stasUtxo splitDestinations None paymentKey data True")
    case (Inl e)
    then show ?thesis by simp
  next
    case (Inr r)
    from signed_Inr[OF Inr] show ?thesis
      by (auto simp: core split: if_splits)
  qed
qed

theorem zero_change_without_payment_utxo_witness:
  "unSignedFunc sample_env ''02aaaa'' sample_stas ''03pppp'' None sample_destinations None
     True None None 112 False = Inl TypeError"
proof -
  have v: "validateRedeemSplitArgs sample_env ''02aaaa'' sample_stas ''03pppp'' None
             sample_destinations"
    "destinationsOk sample_env sample_stas sample_destinations"
    by (simp_all add: sample_defs destinationsOk_def)
  from zero_change_without_payment_utxo[THEN conjunct1, of sample_env "''02aaaa''"
      sample_stas "''03pppp''" sample_destinations None None None 112]
  show ?thesis
    by (simp only: v not_True_eq_False if_False)
qed

end
